theory Spec2Isabelle
  imports Complex_Main "HOL-Library.Word"
begin

unbundle bit_operations_syntax

section \<open>The Opus/WebM extraction job of \<^verbatim>\<open>opus.wasm.js\<close>\<close>

text \<open>
  The development embeds the hand-written part of \<^verbatim>\<open>src/wordle_sonar/scripts/opus.wasm.js\<close>
  (lines 1 to 226: the EBML walker, the timing handlers, the block extractor and the PCM
  assembler).  JavaScript integers are \<^typ>\<open>int\<close>; the 32-bit conversions performed by the
  shift operators are written out.  The numbers that are genuinely floating point (the
  duration and the product with \<^verbatim>\<open>0.000048\<close>) are binary64 values, modelled exactly as
  dyadic rationals with round-to-nearest-even.  Exceptions are values: a function that can
  throw returns a sum, and a function that mutates the module's variables returns the
  variables both when it returns and when it throws.
\<close>

subsection \<open>Bytes, errors and the \<^verbatim>\<open>DataView\<close> reads\<close>

type_synonym byte = "8 word"

text \<open>A sample is the bit pattern of one 32-bit float of a \<^verbatim>\<open>Float32Array\<close>.\<close>

type_synonym sample = "32 word"

datatype error =
    RangeError
  | TypeError
  | InvalidSize
  | InvalidTagLength int
  | InvalidSizeLength
  | NonOpusData
  | LacingNotSupported
  | LeadingDiscard
  | BufferOverflow
  | FailedToParseFrame
  | FailedToCreateDecoder

text \<open>
  \<^verbatim>\<open>DataView\<close> reads throw a \<^verbatim>\<open>RangeError\<close> outside the buffer; multi-byte reads are
  big-endian (no \<^verbatim>\<open>littleEndian\<close> argument is ever passed).
\<close>

definition in_view :: "byte list \<Rightarrow> int \<Rightarrow> int \<Rightarrow> bool" where
  "in_view data position n = (0 \<le> position \<and> position + n \<le> int (length data))"

definition be_uint :: "byte list \<Rightarrow> int" where
  "be_uint bs = foldl (\<lambda>a b. a * 256 + uint b) 0 bs"

definition bytes_at :: "byte list \<Rightarrow> int \<Rightarrow> nat \<Rightarrow> byte list" where
  "bytes_at data position n = take n (drop (nat position) data)"

definition to_signed :: "nat \<Rightarrow> int \<Rightarrow> int" where
  "to_signed w x = (x + 2 ^ (w - 1)) mod 2 ^ w - 2 ^ (w - 1)"

definition getUint8 :: "byte list \<Rightarrow> int \<Rightarrow> error + int" where
  "getUint8 data position =
     (if in_view data position 1 then Inr (uint (data ! nat position)) else Inl RangeError)"

definition getInt8 :: "byte list \<Rightarrow> int \<Rightarrow> error + int" where
  "getInt8 data position =
     (if in_view data position 1 then Inr (sint (data ! nat position)) else Inl RangeError)"

definition getInt16 :: "byte list \<Rightarrow> int \<Rightarrow> error + int" where
  "getInt16 data position =
     (if in_view data position 2 then Inr (to_signed 16 (be_uint (bytes_at data position 2)))
      else Inl RangeError)"

definition getInt32 :: "byte list \<Rightarrow> int \<Rightarrow> error + int" where
  "getInt32 data position =
     (if in_view data position 4 then Inr (to_signed 32 (be_uint (bytes_at data position 4)))
      else Inl RangeError)"

subsection \<open>The 32-bit operators\<close>

text \<open>
  \<^verbatim>\<open>x << 8\<close> converts \<open>x\<close> to a signed 32-bit integer, shifts, and keeps the low 32 bits
  as a signed value.  \<^verbatim>\<open>x >> 7\<close> is the arithmetic shift.  On operands that are already in
  the signed 32-bit range, \<^verbatim>\<open>&\<close> and \<^verbatim>\<open>|\<close> are the bitwise operations of \<^typ>\<open>int\<close>.
\<close>

definition ToInt32 :: "int \<Rightarrow> int" where
  "ToInt32 x = to_signed 32 x"

definition shl8 :: "int \<Rightarrow> int" where
  "shl8 x = ToInt32 (ToInt32 x * 256)"

definition sar7 :: "int \<Rightarrow> int" where
  "sar7 x = ToInt32 x div 128"

subsection \<open>The tables\<close>

text \<open>
  The literal of the source lists 256 entries: 0, 8, 7, 7, then 6 four times, 5 eight times,
  4 sixteen times, 3 thirty-two times, 2 sixty-four times and 1 one hundred and twenty-eight
  times.
\<close>

definition VINT_SIZES :: "int list" where
  "VINT_SIZES =
     [0, 8, 7, 7, 6, 6, 6, 6] @ replicate 8 5 @ replicate 16 4 @ replicate 32 3
       @ replicate 64 2 @ replicate 128 1"

definition VINT_MASKS :: "int list" where
  "VINT_MASKS = [255, 127, 63, 31, 15, 7, 3, 1, 0]"

definition OPUS_SIG :: "int list" where
  "OPUS_SIG = [65, 95, 79, 80, 85, 83]"

text \<open>
  \<^verbatim>\<open>VINT_SIZES[firstByte]\<close>: the index is a byte value, so always inside the table.
  \<^verbatim>\<open>VINT_MASKS[sizeLength]\<close>: the index is an entry of \<open>VINT_SIZES\<close>, at most 8.
\<close>

definition vint_size :: "int \<Rightarrow> int" where
  "vint_size firstByte = VINT_SIZES ! nat firstByte"

definition vint_mask :: "int \<Rightarrow> int" where
  "vint_mask sizeLength = VINT_MASKS ! nat sizeLength"

subsection \<open>\<^verbatim>\<open>ReadVInt\<close>, \<^verbatim>\<open>ParseIntTag\<close>, \<^verbatim>\<open>ReadInt24\<close>\<close>

text \<open>
  \<^verbatim>\<open>
  function ReadVInt(data, position, length, initialMask) {
      let value = data.getUint8(position) & initialMask;
      for (let i = 1; i < length; i++) value = (value << 8) + data.getUint8(position + i);
      return value
  }
  \<close>
\<close>

function ReadVInt_loop :: "byte list \<Rightarrow> int \<Rightarrow> int \<Rightarrow> int \<Rightarrow> int \<Rightarrow> error + int" where
  "ReadVInt_loop data position len i v =
     (if i < len then
        (case getUint8 data (position + i) of
           Inl e \<Rightarrow> Inl e
         | Inr b \<Rightarrow> ReadVInt_loop data position len (i + 1) (shl8 v + b))
      else Inr v)"
  by pat_completeness auto
termination
  by (relation "measure (\<lambda>(data, position, len, i, v). nat (len - i))") auto

declare ReadVInt_loop.simps [simp del]

definition ReadVInt :: "byte list \<Rightarrow> int \<Rightarrow> int \<Rightarrow> int \<Rightarrow> error + int" where
  "ReadVInt data position len initialMask =
     (case getUint8 data position of
        Inl e \<Rightarrow> Inl e
      | Inr b \<Rightarrow> ReadVInt_loop data position len 1 (b AND initialMask))"

text \<open>
  \<^verbatim>\<open>
  function ReadInt24(data, position) {
      let first = data.getInt8(position);
      let sign = first >> 7;
      let value = first & 0b1111111;
      value = (value << 8) | data.getUint8(position);
      value = (value << 8) | data.getUint8(position);
      return sign === 1 ? -value : value;
  }
  \<close>
  Both later reads are at \<open>position\<close> again, and \<open>sign\<close> is \<open>0\<close> or \<open>-1\<close>.
\<close>

definition ReadInt24 :: "byte list \<Rightarrow> int \<Rightarrow> error + int" where
  "ReadInt24 data position =
     (case getInt8 data position of
        Inl e \<Rightarrow> Inl e
      | Inr first \<Rightarrow>
          (let sign = sar7 first;
               v0 = first AND 127
           in case getUint8 data position of
                Inl e \<Rightarrow> Inl e
              | Inr b1 \<Rightarrow>
                  (let v1 = shl8 v0 OR b1
                   in case getUint8 data position of
                        Inl e \<Rightarrow> Inl e
                      | Inr b2 \<Rightarrow>
                          (let v2 = shl8 v1 OR b2
                           in Inr (if sign = 1 then - v2 else v2)))))"

definition ParseIntTag :: "byte list \<Rightarrow> int \<Rightarrow> int \<Rightarrow> error + int" where
  "ParseIntTag data position sz =
     (if sz = 1 then getInt8 data position
      else if sz = 2 then getInt16 data position
      else if sz = 3 then ReadInt24 data position
      else if sz = 4 then getInt32 data position
      else Inl InvalidSize)"

subsection \<open>binary64 numbers\<close>

text \<open>
  A finite binary64 value is \<open>m * 2 ^ e\<close> for integers \<open>m\<close> and \<open>e\<close>; \<open>Fin m e\<close> stands for
  it (the representation need not be normalised, and the sign of zero is not kept: no
  operation used here distinguishes \<open>-0\<close> from \<open>0\<close>).  \<open>round64 m e\<close> is the binary64 value
  nearest to the exact number \<open>m * 2 ^ e\<close>, ties to even: 53 significant bits, the least
  exponent of a unit in the last place is \<open>-1074\<close>, and a magnitude of \<open>2 ^ 1024\<close> or more
  after rounding is an infinity.
\<close>

datatype jsnum = Fin int int | PosInf | NegInf | NaN

text \<open>The number of binary digits of a positive integer.\<close>

function bit_length :: "int \<Rightarrow> int" where
  "bit_length a = (if a \<le> 0 then 0 else 1 + bit_length (a div 2))"
  by pat_completeness auto
termination
  by (relation "measure nat") auto

declare bit_length.simps [simp del]

definition inf_of :: "int \<Rightarrow> jsnum" where
  "inf_of m = (if m < 0 then NegInf else PosInf)"

text \<open>Dropping the \<open>s\<close> low bits of \<open>a\<close>, to nearest, ties to even (for \<open>0 < s\<close>).\<close>

definition round_half_even :: "int \<Rightarrow> nat \<Rightarrow> int" where
  "round_half_even a s =
     (let t = a div 2 ^ s;
          r = a mod 2 ^ s;
          h = 2 ^ (s - 1)
      in if h < r \<or> (r = h \<and> odd t) then t + 1 else t)"

definition round64 :: "int \<Rightarrow> int \<Rightarrow> jsnum" where
  "round64 m e =
     (if m = 0 then Fin 0 0
      else
        (let a = \<bar>m\<bar>;
             top = bit_length a - 1 + e;
             q = max top (- 1022) - 52
         in if q \<le> e then (if 1024 \<le> top then inf_of m else Fin m e)
            else
              (let t = round_half_even a (nat (q - e))
               in if 1024 < bit_length t + q then inf_of m
                  else Fin (sgn m * t) q)))"

fun add64 :: "jsnum \<Rightarrow> jsnum \<Rightarrow> jsnum" where
  "add64 (Fin m1 e1) (Fin m2 e2) =
     (let e = min e1 e2 in round64 (m1 * 2 ^ nat (e1 - e) + m2 * 2 ^ nat (e2 - e)) e)"
| "add64 NaN y = NaN"
| "add64 x NaN = NaN"
| "add64 PosInf NegInf = NaN"
| "add64 NegInf PosInf = NaN"
| "add64 PosInf y = PosInf"
| "add64 NegInf y = NegInf"
| "add64 x PosInf = PosInf"
| "add64 x NegInf = NegInf"

definition is_neg :: "jsnum \<Rightarrow> bool" where
  "is_neg x = (case x of Fin m e \<Rightarrow> m < 0 | NegInf \<Rightarrow> True | PosInf \<Rightarrow> False | NaN \<Rightarrow> False)"

definition is_zero :: "jsnum \<Rightarrow> bool" where
  "is_zero x = (case x of Fin m e \<Rightarrow> m = 0 | NegInf \<Rightarrow> False | PosInf \<Rightarrow> False | NaN \<Rightarrow> False)"

definition signed_inf :: "jsnum \<Rightarrow> jsnum \<Rightarrow> jsnum" where
  "signed_inf x y = (if is_neg x = is_neg y then PosInf else NegInf)"

fun mul64 :: "jsnum \<Rightarrow> jsnum \<Rightarrow> jsnum" where
  "mul64 (Fin m1 e1) (Fin m2 e2) = round64 (m1 * m2) (e1 + e2)"
| "mul64 NaN y = NaN"
| "mul64 x NaN = NaN"
| "mul64 x y = (if is_zero x \<or> is_zero y then NaN else signed_inf x y)"

text \<open>
  The quotient of two finite values is rounded from more than 64 quotient bits and a sticky
  bit for the remainder, which rounds as the exact quotient does.
\<close>

fun div64 :: "jsnum \<Rightarrow> jsnum \<Rightarrow> jsnum" where
  "div64 (Fin m1 e1) (Fin m2 e2) =
     (if m2 = 0 then (if m1 = 0 then NaN else inf_of m1)
      else
        (let k = 64 + bit_length \<bar>m2\<bar>;
             n = \<bar>m1\<bar> * 2 ^ nat k;
             qv = n div \<bar>m2\<bar>;
             sticky = (if n mod \<bar>m2\<bar> = 0 then 0 else 1)
         in round64 (sgn m1 * sgn m2 * (2 * qv + sticky)) (e1 - e2 - k - 1)))"
| "div64 NaN y = NaN"
| "div64 x NaN = NaN"
| "div64 (Fin m e) y = Fin 0 0"
| "div64 x (Fin m e) = signed_inf x (Fin m e)"
| "div64 x y = NaN"

definition of_integer :: "int \<Rightarrow> jsnum" where
  "of_integer n = round64 n 0"

text \<open>\<^verbatim>\<open>Math.floor\<close> and the truncation of \<^verbatim>\<open>ToIntegerOrInfinity\<close>, on a finite value.\<close>

definition floor_dyadic :: "int \<Rightarrow> int \<Rightarrow> int" where
  "floor_dyadic m e = (if 0 \<le> e then m * 2 ^ nat e else m div 2 ^ nat (- e))"

definition trunc_dyadic :: "int \<Rightarrow> int \<Rightarrow> int" where
  "trunc_dyadic m e = sgn m * floor_dyadic \<bar>m\<bar> e"

text \<open>
  The literal \<^verbatim>\<open>0.000048\<close> denotes the binary64 value nearest to 48/1000000, which is
  \<open>7083549724304468 * 2 ^ -67\<close> (hexadecimal \<^verbatim>\<open>0x1.92a737110e454p-15\<close>).
\<close>

definition lit_0_000048 :: jsnum where
  "lit_0_000048 = Fin 7083549724304468 (- 67)"

text \<open>
  \<^verbatim>\<open>Math.floor(x * 0.000048)\<close> for an integer \<open>x\<close>.  The product of an integer below
  \<open>2 ^ 1000\<close> in magnitude is finite; the values that reach it come from \<open>ReadVInt\<close> and
  \<open>ParseIntTag\<close> and fit in 33 bits.
\<close>

definition floor_times_0_000048 :: "int \<Rightarrow> int" where
  "floor_times_0_000048 x =
     (case mul64 (of_integer x) lit_0_000048 of
        Fin m e \<Rightarrow> floor_dyadic m e
      | PosInf \<Rightarrow> 0 | NegInf \<Rightarrow> 0 | NaN \<Rightarrow> 0)"

text \<open>\<^verbatim>\<open>getFloat32\<close> and \<^verbatim>\<open>getFloat64\<close>: IEEE 754 interchange formats, big-endian.\<close>

definition decode_float :: "nat \<Rightarrow> nat \<Rightarrow> int \<Rightarrow> jsnum" where
  "decode_float w p bits =
     (let sign = bits div 2 ^ (w + p);
          ex = (bits div 2 ^ p) mod 2 ^ w;
          frac = bits mod 2 ^ p;
          bias = 2 ^ (w - 1) - 1;
          sg = (if sign = 1 then - 1 else 1)
      in if ex = 2 ^ w - 1 then (if frac = 0 then inf_of sg else NaN)
         else if ex = 0 then Fin (sg * frac) (1 - bias - int p)
         else Fin (sg * (2 ^ p + frac)) (ex - bias - int p))"

definition getFloat32 :: "byte list \<Rightarrow> int \<Rightarrow> error + jsnum" where
  "getFloat32 data position =
     (if in_view data position 4 then Inr (decode_float 8 23 (be_uint (bytes_at data position 4)))
      else Inl RangeError)"

definition getFloat64 :: "byte list \<Rightarrow> int \<Rightarrow> error + jsnum" where
  "getFloat64 data position =
     (if in_view data position 8 then Inr (decode_float 11 52 (be_uint (bytes_at data position 8)))
      else Inl RangeError)"

text \<open>
  \<^verbatim>\<open>ToIndex\<close>, applied by \<^verbatim>\<open>new Float32Array(length)\<close> to its argument: \<open>NaN\<close> is 0, a
  fraction is truncated towards zero, and a result outside \<open>0 .. 2 ^ 53 - 1\<close> throws.
\<close>

definition ToIndex :: "jsnum \<Rightarrow> error + int" where
  "ToIndex x =
     (case x of
        NaN \<Rightarrow> Inr 0
      | PosInf \<Rightarrow> Inl RangeError
      | NegInf \<Rightarrow> Inl RangeError
      | Fin m e \<Rightarrow>
          (let n = trunc_dyadic m e
           in if n < 0 \<or> 2 ^ 53 - 1 < n then Inl RangeError else Inr n))"

subsection \<open>The native module and the module's variables\<close>

text \<open>
  The compiled decoder is outside the walker: the members of \<^verbatim>\<open>Module\<close> are parameters,
  acting on a state \<open>'w\<close> of the WebAssembly instance.  \<open>heap32\<close> is the instance's memory
  (\<^verbatim>\<open>Module.HEAPU8.buffer\<close>) read as 32-bit cells, which is how \<open>WriteOutput\<close> reads it.
  \<open>heap_set w bytes offset\<close> is \<^verbatim>\<open>Module.HEAPU8.set(bytes, offset)\<close> for a range that lies
  inside the memory.  \<open>decode_frame w decoder inputPointer length outputPointer maxSamples\<close>
  is \<^verbatim>\<open>Module._decode_frame\<close>: it finds the frame in the memory.  \<open>array_limit\<close> is the
  largest length for which the engine allocates a \<^verbatim>\<open>Float32Array\<close>.
\<close>

record 'w native =
  heap32 :: "'w \<Rightarrow> sample list"
  heap_set :: "'w \<Rightarrow> byte list \<Rightarrow> int \<Rightarrow> 'w"
  malloc :: "'w \<Rightarrow> int \<Rightarrow> int \<times> 'w"
  create_decoder :: "'w \<Rightarrow> int \<Rightarrow> int \<Rightarrow> int \<times> 'w"
  destroy_decoder :: "'w \<Rightarrow> int option \<Rightarrow> 'w"
  decode_frame :: "'w \<Rightarrow> int option \<Rightarrow> int option \<Rightarrow> int \<Rightarrow> int option \<Rightarrow> int \<Rightarrow> int \<times> 'w"
  array_limit :: int

text \<open>
  The variables \<^verbatim>\<open>_decoder\<close>, \<^verbatim>\<open>_audioBuffer\<close>, \<^verbatim>\<open>_inputPointer\<close>, \<^verbatim>\<open>_outputBuffer\<close>,
  \<^verbatim>\<open>_outputPointer\<close> and \<^verbatim>\<open>_outputOffset\<close>; \<open>None\<close> is \<^verbatim>\<open>null\<close>.  \<open>_outputBuffer\<close> is a
  view of the heap that is only ever tested against \<^verbatim>\<open>null\<close>: its length is kept.
\<close>

record 'w vars =
  decoder :: "int option"
  audioBuffer :: "sample list option"
  inputPointer :: "int option"
  outputBuffer :: "int option"
  outputPointer :: "int option"
  outputOffset :: int
  wasm :: 'w

type_synonym 'w outcome = "(error \<times> 'w vars) + 'w vars"

text \<open>A \<^verbatim>\<open>null\<close> pointer is 0 in arithmetic and as an offset.\<close>

definition ptr :: "int option \<Rightarrow> int" where
  "ptr p = (case p of None \<Rightarrow> 0 | Some a \<Rightarrow> a)"

text \<open>
  \<^verbatim>\<open>new Float32Array(buffer, byteOffset, length)\<close> over the heap: a \<^verbatim>\<open>RangeError\<close> (here
  \<open>None\<close>) for a negative or unaligned offset, a negative length, or a range past the end.
\<close>

definition f32_view :: "sample list \<Rightarrow> int \<Rightarrow> int \<Rightarrow> sample list option" where
  "f32_view heap byteOffset n =
     (if 0 \<le> byteOffset \<and> byteOffset mod 4 = 0 \<and> 0 \<le> n
         \<and> byteOffset + n * 4 \<le> 4 * int (length heap)
      then Some (take (nat n) (drop (nat (byteOffset div 4)) heap))
      else None)"

text \<open>\<^verbatim>\<open>new Uint8Array(buffer, byteOffset, length)\<close> over the input.\<close>

definition u8_view :: "byte list \<Rightarrow> int \<Rightarrow> int \<Rightarrow> byte list option" where
  "u8_view buffer byteOffset n =
     (if 0 \<le> byteOffset \<and> 0 \<le> n \<and> byteOffset + n \<le> int (length buffer)
      then Some (take (nat n) (drop (nat byteOffset) buffer))
      else None)"

text \<open>\<^verbatim>\<open>new Float32Array(length)\<close>: zero-filled.\<close>

definition new_Float32Array :: "'w native \<Rightarrow> jsnum \<Rightarrow> error + sample list" where
  "new_Float32Array env len =
     (case ToIndex len of
        Inl e \<Rightarrow> Inl e
      | Inr n \<Rightarrow> if array_limit env < n then Inl RangeError else Inr (replicate (nat n) 0))"

text \<open>
  \<^verbatim>\<open>target.set(source, offset)\<close>, used where \<open>offset + source.length\<close> has been checked
  against the target's length.
\<close>

definition typed_set :: "'a list \<Rightarrow> 'a list \<Rightarrow> int \<Rightarrow> 'a list" where
  "typed_set target source offset =
     take (nat offset) target @ source @ drop (nat offset + length source) target"

subsection \<open>The decoder's lifecycle\<close>

text \<open>
  \<^verbatim>\<open>
  function CalculateAudioBufferSize(rate, channels, duration) {
      return rate / 1e3 * channels * duration
  }
  function CreateDecoder(duration) {
      let frequency = 48e3;
      let channels = 1;
      let bufferSize = 2048;
      let length = CalculateAudioBufferSize(frequency, channels, duration + 120);
      _audioBuffer = new Float32Array(length);
      if (!_outputBuffer) {
          _outputPointer = Module._malloc(bufferSize << 2);
          _outputBuffer = new Float32Array(Module.HEAPU8.buffer, _outputPointer, bufferSize)
      }
      if (!_inputPointer) {
          _inputPointer = Module._malloc(bufferSize)
      }
      _decoder = Module._create_decoder(frequency, channels);
      if (_decoder < 0) throw new Error("Failed to create decoder")
  }
  \<close>
\<close>

definition CalculateAudioBufferSize :: "jsnum \<Rightarrow> jsnum \<Rightarrow> jsnum \<Rightarrow> jsnum" where
  "CalculateAudioBufferSize rate channels duration =
     mul64 (mul64 (div64 rate (of_integer 1000)) channels) duration"

definition bufferSize :: int where
  "bufferSize = 2048"

definition alloc_output :: "'w native \<Rightarrow> 'w vars \<Rightarrow> 'w outcome" where
  "alloc_output env s =
     (if outputBuffer s = None then
        (let (p, w) = malloc env (wasm s) (bufferSize * 4);
             s1 = s\<lparr>outputPointer := Some p, wasm := w\<rparr>
         in case f32_view (heap32 env w) p bufferSize of
              None \<Rightarrow> Inl (RangeError, s1)
            | Some view \<Rightarrow> Inr (s1\<lparr>outputBuffer := Some (int (length view))\<rparr>))
      else Inr s)"

definition alloc_input :: "'w native \<Rightarrow> 'w vars \<Rightarrow> 'w vars" where
  "alloc_input env s =
     (if inputPointer s = None \<or> inputPointer s = Some 0 then
        (let (p, w) = malloc env (wasm s) bufferSize
         in s\<lparr>inputPointer := Some p, wasm := w\<rparr>)
      else s)"

definition CreateDecoder :: "'w native \<Rightarrow> jsnum \<Rightarrow> 'w vars \<Rightarrow> 'w outcome" where
  "CreateDecoder env duration s =
     (let frequency = 48000;
          channels = 1;
          len = CalculateAudioBufferSize (of_integer frequency) (of_integer channels)
                  (add64 duration (of_integer 120))
      in case new_Float32Array env len of
           Inl e \<Rightarrow> Inl (e, s)
         | Inr buf \<Rightarrow>
             (case alloc_output env (s\<lparr>audioBuffer := Some buf\<rparr>) of
                Inl x \<Rightarrow> Inl x
              | Inr s1 \<Rightarrow>
                  (let s2 = alloc_input env s1;
                       (d, w) = create_decoder env (wasm s2) frequency channels;
                       s3 = s2\<lparr>decoder := Some d, wasm := w\<rparr>
                   in if d < 0 then Inl (FailedToCreateDecoder, s3) else Inr s3)))"

text \<open>
  \<^verbatim>\<open>
  function DestroyDecoder() {
      Module._destroy_decoder(_decoder);
      _decoder = null;
      _outputOffset = 0;
  }
  \<close>
\<close>

definition DestroyDecoder :: "'w native \<Rightarrow> 'w vars \<Rightarrow> 'w vars" where
  "DestroyDecoder env s =
     s\<lparr>wasm := destroy_decoder env (wasm s) (decoder s), decoder := None, outputOffset := 0\<rparr>"

subsection \<open>The PCM assembler\<close>

text \<open>
  \<^verbatim>\<open>
  function WriteOutput(ret) {
      if (ret + _outputOffset > 0) {
          let tempBuffer;
          let writePosition = _outputOffset;
          if (_outputOffset < 0) {
              let trim = -_outputOffset;
              tempBuffer = new Float32Array(Module.HEAPU8.buffer, _outputPointer + trim * 4, ret - trim);
              writePosition = 0;
          }
          else {
              tempBuffer = new Float32Array(Module.HEAPU8.buffer, _outputPointer, ret);
          }
          if (writePosition + tempBuffer.length > _audioBuffer.length)
              throw new Error("Buffer overflow");
          _audioBuffer.set(tempBuffer, writePosition);
      }
      _outputOffset += ret;
  }
  \<close>
  Reading \<^verbatim>\<open>_audioBuffer.length\<close> of \<^verbatim>\<open>null\<close> throws a \<^verbatim>\<open>TypeError\<close>.
\<close>

definition WriteOutput :: "'w native \<Rightarrow> int \<Rightarrow> 'w vars \<Rightarrow> 'w outcome" where
  "WriteOutput env ret s =
     (if 0 < ret + outputOffset s then
        (let heap = heap32 env (wasm s);
             view = (if outputOffset s < 0
                     then (let trim = - outputOffset s
                           in f32_view heap (ptr (outputPointer s) + trim * 4) (ret - trim))
                     else f32_view heap (ptr (outputPointer s)) ret);
             writePosition = (if outputOffset s < 0 then 0 else outputOffset s)
         in case view of
              None \<Rightarrow> Inl (RangeError, s)
            | Some tempBuffer \<Rightarrow>
                (case audioBuffer s of
                   None \<Rightarrow> Inl (TypeError, s)
                 | Some buf \<Rightarrow>
                     if int (length buf) < writePosition + int (length tempBuffer)
                     then Inl (BufferOverflow, s)
                     else Inr (s\<lparr>audioBuffer := Some (typed_set buf tempBuffer writePosition),
                                 outputOffset := outputOffset s + ret\<rparr>)))
      else Inr (s\<lparr>outputOffset := outputOffset s + ret\<rparr>))"

text \<open>
  \<^verbatim>\<open>
  function ParseFrame(data) {
      let length = data.length;
      Module.HEAPU8.set(data, _inputPointer);
      let ret = Module._decode_frame(_decoder, _inputPointer, length, _outputPointer, 4096);
      if (ret > 0) {
          WriteOutput(ret);
      } else {
          throw new Error("Failed to parse frame")
      }
  }
  \<close>
  \<^verbatim>\<open>HEAPU8.set\<close> throws a \<^verbatim>\<open>RangeError\<close> when the frame does not fit the heap at the
  offset, and copies the frame to the heap otherwise; a \<^verbatim>\<open>null\<close> offset is 0.
\<close>

definition maxOutputSamples :: int where
  "maxOutputSamples = 4096"

definition ParseFrame :: "'w native \<Rightarrow> byte list \<Rightarrow> 'w vars \<Rightarrow> 'w outcome" where
  "ParseFrame env frame s =
     (if ptr (inputPointer s) < 0
         \<or> 4 * int (length (heap32 env (wasm s))) < ptr (inputPointer s) + int (length frame)
      then Inl (RangeError, s)
      else
        (let len = int (length frame);
             w0 = heap_set env (wasm s) frame (ptr (inputPointer s));
             (ret, w) = decode_frame env w0 (decoder s) (inputPointer s) len
                          (outputPointer s) maxOutputSamples;
             s1 = s\<lparr>wasm := w\<rparr>
         in if 0 < ret then WriteOutput env ret s1 else Inl (FailedToParseFrame, s1)))"

subsection \<open>The block extractor and the timing handlers\<close>

text \<open>
  \<^verbatim>\<open>
  function ParseBlock(data, position, size) {
      let firstByte, tagLength, flags, lacing;
      firstByte = data.getUint8(position);
      tagLength = VINT_SIZES[firstByte];
      position += tagLength;
      position += 2;
      flags = data.getUint8(position);
      position += 1;
      size -= tagLength + 3;
      lacing = flags & 6;
      if (lacing) throw new Error("Lacing not supported");
      ParseFrame(new Uint8Array(data.buffer, position, size))
  }
  \<close>
\<close>

definition ParseBlock :: "'w native \<Rightarrow> byte list \<Rightarrow> int \<Rightarrow> int \<Rightarrow> 'w vars \<Rightarrow> 'w outcome" where
  "ParseBlock env data position sz s =
     (case getUint8 data position of
        Inl e \<Rightarrow> Inl (e, s)
      | Inr firstByte \<Rightarrow>
          (let tagLength = vint_size firstByte;
               position1 = position + tagLength + 2
           in case getUint8 data position1 of
                Inl e \<Rightarrow> Inl (e, s)
              | Inr flags \<Rightarrow>
                  (let position2 = position1 + 1;
                       sz1 = sz - (tagLength + 3);
                       lacing = flags AND 6
                   in if lacing \<noteq> 0 then Inl (LacingNotSupported, s)
                      else (case u8_view data position2 sz1 of
                              None \<Rightarrow> Inl (RangeError, s)
                            | Some frame \<Rightarrow> ParseFrame env frame s))))"

text \<open>
  \<^verbatim>\<open>
  function ParseDuration(data, position, size) {
      let duration;
      if (size == 4) duration = data.getFloat32(position);
      else if (size == 8) duration = data.getFloat64(position);
      else throw new Error("Invalid size");
      CreateDecoder(duration)
  }
  \<close>
\<close>

definition ParseDuration :: "'w native \<Rightarrow> byte list \<Rightarrow> int \<Rightarrow> int \<Rightarrow> 'w vars \<Rightarrow> 'w outcome" where
  "ParseDuration env data position sz s =
     (case (if sz = 4 then getFloat32 data position
            else if sz = 8 then getFloat64 data position
            else Inl InvalidSize) of
        Inl e \<Rightarrow> Inl (e, s)
      | Inr duration \<Rightarrow> CreateDecoder env duration s)"

text \<open>
  \<^verbatim>\<open>
  function ParseDiscard(data, position, size) {
      let discardDuration = ParseIntTag(data, position, size);
      if (discardDuration < 0)
          throw new Error("Cannot discard leading block data");
      let discardFrames = Math.floor(discardDuration * 0.000048);
      _outputOffset -= discardFrames;
  }
  function ParseDelay(data, position, size) {
      let discardDuration = ReadVInt(data, position, size, 0xFF);
      _outputOffset = -Math.floor(discardDuration * 0.000048)
  }
  \<close>
\<close>

definition ParseDiscard :: "byte list \<Rightarrow> int \<Rightarrow> int \<Rightarrow> 'w vars \<Rightarrow> 'w outcome" where
  "ParseDiscard data position sz s =
     (case ParseIntTag data position sz of
        Inl e \<Rightarrow> Inl (e, s)
      | Inr discardDuration \<Rightarrow>
          if discardDuration < 0 then Inl (LeadingDiscard, s)
          else (let discardFrames = floor_times_0_000048 discardDuration
                in Inr (s\<lparr>outputOffset := outputOffset s - discardFrames\<rparr>)))"

definition ParseDelay :: "byte list \<Rightarrow> int \<Rightarrow> int \<Rightarrow> 'w vars \<Rightarrow> 'w outcome" where
  "ParseDelay data position sz s =
     (case ReadVInt data position sz 255 of
        Inl e \<Rightarrow> Inl (e, s)
      | Inr discardDuration \<Rightarrow>
          Inr (s\<lparr>outputOffset := - floor_times_0_000048 discardDuration\<rparr>))"

text \<open>
  \<^verbatim>\<open>
  function TestOpus(data, position) {
      for (let i = 0, l = 6; i < l; i++) {
          if (data.getUint8(position + i) != OPUS_SIG[i]) throw new Error("Contains non opus data")
      }
  }
  \<close>
\<close>

function TestOpus_loop :: "byte list \<Rightarrow> int \<Rightarrow> int \<Rightarrow> error option" where
  "TestOpus_loop data position i =
     (if 0 \<le> i \<and> i < 6 then
        (case getUint8 data (position + i) of
           Inl e \<Rightarrow> Some e
         | Inr b \<Rightarrow> if b \<noteq> OPUS_SIG ! nat i then Some NonOpusData
                    else TestOpus_loop data position (i + 1))
      else None)"
  by pat_completeness auto
termination
  by (relation "measure (\<lambda>(data, position, i). nat (6 - i))") auto

declare TestOpus_loop.simps [simp del]

definition TestOpus :: "byte list \<Rightarrow> int \<Rightarrow> 'w vars \<Rightarrow> 'w outcome" where
  "TestOpus data position s =
     (case TestOpus_loop data position 0 of Some e \<Rightarrow> Inl (e, s) | None \<Rightarrow> Inr s)"

subsection \<open>The tree walker\<close>

text \<open>
  \<^verbatim>\<open>
  function ParseMaster(data, position, length) {
      let firstByte, tagLength, id, sizeLength, mask, size;
      let end = position + length;
      while (position < end) {
          firstByte = data.getUint8(position);
          tagLength = VINT_SIZES[firstByte];
          if (tagLength > 4 || tagLength == 0) throw new Error("Invalid tag length " + tagLength);
          id = ReadVInt(data, position, tagLength, 255);
          position += tagLength;
          firstByte = data.getUint8(position);
          sizeLength = VINT_SIZES[firstByte];
          mask = VINT_MASKS[sizeLength];
          if (sizeLength == 0) throw new Error("Invalid size length");
          size = ReadVInt(data, position, sizeLength, mask);
          position += sizeLength;
          switch (id) {
              case 408125543: case 357149030: case 524531317:
              case 374648427: case 174: case 160:
                  ParseMaster(data, position, size);
                  break;
              case 17545: ParseDuration(data, position, size); break;
              case 22186: ParseDelay(data, position, size); break;
              case 30114: ParseDiscard(data, position, size); break;
              case 134:   TestOpus(data, position); break;
              case 161: case 163: ParseBlock(data, position, size); break;
          }
          position += size
      }
  }
  \<close>
  \<open>read_header\<close> is the first half of the loop body, up to the \<^verbatim>\<open>switch\<close>: it returns the
  id, the size and the position of the payload.  It touches no variable of the module.
\<close>

definition read_header :: "byte list \<Rightarrow> int \<Rightarrow> error + (int \<times> int \<times> int)" where
  "read_header data position =
     (case getUint8 data position of
        Inl e \<Rightarrow> Inl e
      | Inr firstByte \<Rightarrow>
          (let tagLength = vint_size firstByte
           in if 4 < tagLength \<or> tagLength = 0 then Inl (InvalidTagLength tagLength)
              else (case ReadVInt data position tagLength 255 of
                      Inl e \<Rightarrow> Inl e
                    | Inr ident \<Rightarrow>
                        (let position1 = position + tagLength
                         in case getUint8 data position1 of
                              Inl e \<Rightarrow> Inl e
                            | Inr firstByte2 \<Rightarrow>
                                (let sizeLength = vint_size firstByte2;
                                     mask = vint_mask sizeLength
                                 in if sizeLength = 0 then Inl InvalidSizeLength
                                    else (case ReadVInt data position1 sizeLength mask of
                                            Inl e \<Rightarrow> Inl e
                                          | Inr sz \<Rightarrow>
                                              Inr (ident, sz, position1 + sizeLength)))))))"

definition is_master :: "int \<Rightarrow> bool" where
  "is_master ident =
     (ident = 408125543 \<or> ident = 357149030 \<or> ident = 524531317 \<or> ident = 374648427
      \<or> ident = 174 \<or> ident = 160)"

text \<open>The leaf cases of the \<^verbatim>\<open>switch\<close>; an id with no case changes nothing.\<close>

definition leaf :: "'w native \<Rightarrow> int \<Rightarrow> byte list \<Rightarrow> int \<Rightarrow> int \<Rightarrow> 'w vars \<Rightarrow> 'w outcome" where
  "leaf env ident data position sz s =
     (if ident = 17545 then ParseDuration env data position sz s
      else if ident = 22186 then ParseDelay data position sz s
      else if ident = 30114 then ParseDiscard data position sz s
      else if ident = 134 then TestOpus data position s
      else if ident = 161 \<or> ident = 163 then ParseBlock env data position sz s
      else Inr s)"

text \<open>
  The loop, with the loop's \<open>end\<close> as an argument; the recursive \<open>ParseMaster(data, position,
  size)\<close> is the loop started at \<open>position\<close> with end \<open>position + size\<close>.  Nothing bounds the
  number of iterations (a size can be negative, see \<open>ReadVInt\<close>), so the loop takes fuel:
  \<open>None\<close> is "not finished within the fuel", one unit per iteration.
\<close>

fun ParseMaster_loop ::
  "nat \<Rightarrow> 'w native \<Rightarrow> byte list \<Rightarrow> 'w vars \<Rightarrow> int \<Rightarrow> int \<Rightarrow> 'w outcome option" where
  "ParseMaster_loop 0 env data s position endp = None"
| "ParseMaster_loop (Suc n) env data s position endp =
     (if position < endp then
        (case read_header data position of
           Inl e \<Rightarrow> Some (Inl (e, s))
         | Inr (ident, sz, payload) \<Rightarrow>
             (case (if is_master ident then ParseMaster_loop n env data s payload (payload + sz)
                    else Some (leaf env ident data payload sz s)) of
                None \<Rightarrow> None
              | Some (Inl x) \<Rightarrow> Some (Inl x)
              | Some (Inr s1) \<Rightarrow> ParseMaster_loop n env data s1 (payload + sz) endp))
      else Some (Inr s))"

definition ParseMaster ::
  "nat \<Rightarrow> 'w native \<Rightarrow> byte list \<Rightarrow> 'w vars \<Rightarrow> int \<Rightarrow> int \<Rightarrow> 'w outcome option" where
  "ParseMaster fuel env data s position len =
     ParseMaster_loop fuel env data s position (position + len)"

subsection \<open>The job\<close>

text \<open>
  \<^verbatim>\<open>
  self.JobHandlers["OpusDecode"] = async function OpusDecode(params) {
      await readyPromise;
      const arrayBuffer = params["arrayBuffer"];
      ParseMaster(new DataView(arrayBuffer), 0, arrayBuffer.byteLength);
      const end = _outputOffset;
      DestroyDecoder();
      const outputBuffer = _audioBuffer.buffer.slice(0, end * 4);
      _audioBuffer = null;
      return { result: outputBuffer, transferables: [outputBuffer] };
  };
  \<close>
  There is no \<^verbatim>\<open>try\<close> in the handler: an exception of \<open>ParseMaster\<close> leaves it at once.
  \<open>ArrayBuffer.prototype.slice\<close> counts a negative bound from the end of the buffer and
  clamps both bounds to the buffer.
\<close>

definition sample_bytes :: "sample \<Rightarrow> byte list" where
  "sample_bytes w = [ucast w, ucast (drop_bit 8 w), ucast (drop_bit 16 w), ucast (drop_bit 24 w)]"

definition buffer_bytes :: "sample list \<Rightarrow> byte list" where
  "buffer_bytes buf = concat (map sample_bytes buf)"

definition slice_bound :: "int \<Rightarrow> int \<Rightarrow> int" where
  "slice_bound len k = (if k < 0 then max (len + k) 0 else min k len)"

definition ArrayBuffer_slice :: "byte list \<Rightarrow> int \<Rightarrow> int \<Rightarrow> byte list" where
  "ArrayBuffer_slice bytes first final =
     (let len = int (length bytes);
          a = slice_bound len first;
          b = slice_bound len final
      in take (nat (max (b - a) 0)) (drop (nat a) bytes))"

definition OpusDecode ::
  "nat \<Rightarrow> 'w native \<Rightarrow> byte list \<Rightarrow> 'w vars \<Rightarrow> ((error \<times> 'w vars) + (byte list \<times> 'w vars)) option" where
  "OpusDecode fuel env arrayBuffer s =
     (case ParseMaster fuel env arrayBuffer s 0 (int (length arrayBuffer)) of
        None \<Rightarrow> None
      | Some (Inl x) \<Rightarrow> Some (Inl x)
      | Some (Inr s1) \<Rightarrow>
          (let endp = outputOffset s1;
               s2 = DestroyDecoder env s1
           in case audioBuffer s2 of
                None \<Rightarrow> Some (Inl (TypeError, s2))
              | Some buf \<Rightarrow>
                  Some (Inr (ArrayBuffer_slice (buffer_bytes buf) 0 (endp * 4),
                             s2\<lparr>audioBuffer := None\<rparr>))))"

text \<open>What the caller of the job sees: the error, or the bytes of the result.\<close>

definition job_result ::
  "((error \<times> 'w vars) + (byte list \<times> 'w vars)) option \<Rightarrow> (error + byte list) option" where
  "job_result r = map_option (map_sum fst fst) r"

text \<open>The variables as the module initialises them.\<close>

definition initial_vars :: "'w \<Rightarrow> 'w vars" where
  "initial_vars w =
     \<lparr>decoder = None, audioBuffer = None, inputPointer = None, outputBuffer = None,
      outputPointer = None, outputOffset = 0, wasm = w\<rparr>"

subsection \<open>A small native module for concrete runs\<close>

text \<open>
  The instance's state is its memory, as 32-bit cells, and the next free address.  The
  bytes of a cell are in little-endian order, as in every WebAssembly memory.  \<open>malloc\<close>
  hands out consecutive blocks.  The decoder of this instance turns every byte of the frame
  it finds at the input pointer into one sample, written at the output pointer, and returns
  the number of samples.
\<close>

definition sample_of_bytes :: "byte \<Rightarrow> byte \<Rightarrow> byte \<Rightarrow> byte \<Rightarrow> sample" where
  "sample_of_bytes a b c d =
     word_of_int (uint a + 256 * uint b + 65536 * uint c + 16777216 * uint d)"

fun bytes_samples :: "byte list \<Rightarrow> sample list" where
  "bytes_samples (a # b # c # d # rest) = sample_of_bytes a b c d # bytes_samples rest"
| "bytes_samples rest = []"

definition toy_native :: "(sample list \<times> int) native" where
  "toy_native =
     \<lparr>heap32 = fst,
      heap_set = (\<lambda>w bytes offset.
         (bytes_samples (typed_set (buffer_bytes (fst w)) bytes offset), snd w)),
      malloc = (\<lambda>w n. (snd w, (fst w, snd w + n))),
      create_decoder = (\<lambda>w rate channels. (1, w)),
      destroy_decoder = (\<lambda>w d. w),
      decode_frame = (\<lambda>w d inp len outp mx.
         (let frame = take (nat len) (drop (nat (ptr inp)) (buffer_bytes (fst w)))
          in (len, (typed_set (fst w) (map ucast frame) (ptr outp div 4), snd w)))),
      array_limit = 4294967295\<rparr>"

definition toy_world :: "sample list \<times> int" where
  "toy_world = (replicate 8192 0, 8)"

text \<open>
  A state in the middle of a job on a small instance: a memory of eight cells, a decoder,
  the scratch area at address 0, the input area at address 16, and an output buffer of six
  samples.
\<close>

definition small_vars :: "int \<Rightarrow> sample list \<Rightarrow> (sample list \<times> int) vars" where
  "small_vars cursor buf =
     \<lparr>decoder = Some 1, audioBuffer = Some buf, inputPointer = Some 16, outputBuffer = Some 4,
      outputPointer = Some 0, outputOffset = cursor, wasm = ([0, 0, 0, 0, 0, 0, 0, 0], 24)\<rparr>"

text \<open>
  The rational number that \<open>Fin m e\<close> stands for, and the length of the output buffer that a
  handler has left.
\<close>

definition dyadic_value :: "int \<Rightarrow> int \<Rightarrow> rat" where
  "dyadic_value m e = (if 0 \<le> e then of_int m * 2 ^ nat e else of_int m / 2 ^ nat (- e))"

definition allocated_length :: "'w outcome \<Rightarrow> nat option" where
  "allocated_length r = (case r of Inl x \<Rightarrow> None | Inr s \<Rightarrow> map_option length (audioBuffer s))"

section \<open>Facts\<close>

subsection \<open>Unfolding rules for concrete runs\<close>

lemmas ev_bytes = getUint8_def getInt8_def getInt16_def getInt32_def in_view_def be_uint_def bytes_at_def
  to_signed_def ToInt32_def shl8_def sar7_def vint_size_def vint_mask_def VINT_SIZES_def VINT_MASKS_def
  OPUS_SIG_def nth_append

lemmas ev_read = ReadVInt_def ReadVInt_loop.simps ReadInt24_def ParseIntTag_def read_header_def
  is_master_def TestOpus_def TestOpus_loop.simps

lemma ParseMaster_loop_numeral:
  "ParseMaster_loop (numeral k) env data s position endp =
     (if position < endp then
        (case read_header data position of
           Inl e \<Rightarrow> Some (Inl (e, s))
         | Inr (ident, sz, payload) \<Rightarrow>
             (case (if is_master ident
                    then ParseMaster_loop (pred_numeral k) env data s payload (payload + sz)
                    else Some (leaf env ident data payload sz s)) of
                None \<Rightarrow> None
              | Some (Inl x) \<Rightarrow> Some (Inl x)
              | Some (Inr s1) \<Rightarrow>
                  ParseMaster_loop (pred_numeral k) env data s1 (payload + sz) endp))
      else Some (Inr s))"
  by (simp add: numeral_eq_Suc)

subsection \<open>Reads inside the buffer\<close>

lemma getUint8_range: "getUint8 data position = Inr b \<Longrightarrow> 0 \<le> b \<and> b < 256"
  using uint_bounded [of "data ! nat position"]
  by (auto simp: getUint8_def split: if_splits)





subsection \<open>Headers and the loop\<close>





lemma vint_size_byte:
  assumes "0 \<le> b" and "b < 256"
  shows "0 \<le> vint_size b \<and> vint_size b \<le> 8"
proof -
  have all: "\<forall>x \<in> set VINT_SIZES. 0 \<le> x \<and> x \<le> 8"
    by (auto simp: VINT_SIZES_def)
  have "length VINT_SIZES = 256" by (simp add: VINT_SIZES_def)
  then have "VINT_SIZES ! nat b \<in> set VINT_SIZES" using assms by (intro nth_mem) simp
  then show ?thesis using all by (simp add: vint_size_def)
qed

lemma read_header_layout:
  assumes "read_header data position = Inr (ident, sz, payload)"
  shows "\<exists>b sb. getUint8 data position = Inr b
            \<and> getUint8 data (position + vint_size b) = Inr sb
            \<and> 0 < vint_size b \<and> vint_size b \<le> 4 \<and> vint_size sb \<noteq> 0
            \<and> ReadVInt data position (vint_size b) 255 = Inr ident
            \<and> ReadVInt data (position + vint_size b) (vint_size sb) (vint_mask (vint_size sb))
                  = Inr sz
            \<and> payload = position + vint_size b + vint_size sb"
proof -
  from assms obtain b where b: "getUint8 data position = Inr b"
    by (auto simp: read_header_def split: sum.splits)
  from assms b have t: "\<not> (4 < vint_size b \<or> vint_size b = 0)"
    by (auto simp: read_header_def Let_def split: if_splits)
  from assms b t obtain i where i: "ReadVInt data position (vint_size b) 255 = Inr i"
    by (auto simp: read_header_def Let_def split: sum.splits)
  from assms b t i obtain sb where sb: "getUint8 data (position + vint_size b) = Inr sb"
    by (auto simp: read_header_def Let_def split: sum.splits)
  from assms b t i sb have z: "vint_size sb \<noteq> 0"
    by (auto simp: read_header_def Let_def split: if_splits)
  from assms b t i sb z obtain v where
    v: "ReadVInt data (position + vint_size b) (vint_size sb) (vint_mask (vint_size sb)) = Inr v"
    by (auto simp: read_header_def Let_def split: sum.splits)
  from assms b t i sb z v have "ident = i" "sz = v" "payload = position + vint_size b + vint_size sb"
    by (simp_all add: read_header_def Let_def)
  moreover have "0 < vint_size b"
    using t vint_size_byte [of b] getUint8_range [OF b] by simp
  ultimately show ?thesis using b t i sb z v by auto
qed

lemma loop_advances:
  assumes "position < endp" and "read_header data position = Inr (ident, sz, payload)"
    and "ParseMaster_loop (Suc n) env data s position endp = Some (Inr sf)"
  shows "\<exists>s1. (if is_master ident then ParseMaster_loop n env data s payload (payload + sz)
               else Some (leaf env ident data payload sz s)) = Some (Inr s1)
            \<and> ParseMaster_loop n env data s1 (payload + sz) endp = Some (Inr sf)"
  using assms by (auto split: option.splits sum.splits if_splits)


lemma loop_leaf_error:
  "position < endp \<Longrightarrow> read_header data position = Inr (ident, sz, payload) \<Longrightarrow>
   \<not> is_master ident \<Longrightarrow> leaf env ident data payload sz s = Inl x \<Longrightarrow>
     ParseMaster_loop (Suc n) env data s position endp = Some (Inl x)"
  by simp

lemma loop_nested_error:
  "position < endp \<Longrightarrow> read_header data position = Inr (ident, sz, payload) \<Longrightarrow>
   is_master ident \<Longrightarrow> ParseMaster_loop n env data s payload (payload + sz) = Some (Inl x) \<Longrightarrow>
     ParseMaster_loop (Suc n) env data s position endp = Some (Inl x)"
  by simp

lemma job_error:
  "ParseMaster fuel env arrayBuffer s 0 (int (length arrayBuffer)) = Some (Inl x) \<Longrightarrow>
     OpusDecode fuel env arrayBuffer s = Some (Inl x)"
  by (simp add: OpusDecode_def)

subsection \<open>Views of the heap and the write of one frame\<close>

lemma f32_view_length: "f32_view heap p n = Some xs \<Longrightarrow> int (length xs) = n"
  by (auto simp: f32_view_def split: if_splits)

lemma f32_view_trim:
  assumes "f32_view heap p n = Some decoded" and "0 < c" and "c < n"
  shows "f32_view heap (p + c * 4) (n - c) = Some (drop (nat c) decoded)"
proof -
  from assms(1) have ok: "0 \<le> p" "p mod 4 = 0" "0 \<le> n" "p + n * 4 \<le> 4 * int (length heap)"
    and dec: "decoded = take (nat n) (drop (nat (p div 4)) heap)"
    by (auto simp: f32_view_def split: if_splits)
  have d: "(p + c * 4) div 4 = p div 4 + c" by simp
  have "0 \<le> p div 4" using ok(1) by simp
  then have n: "nat (p div 4 + c) = nat c + nat (p div 4)" using assms(2) by simp
  have "take (nat (n - c)) (drop (nat ((p + c * 4) div 4)) heap) = drop (nat c) decoded"
    using assms(2,3) by (simp add: dec d n drop_take nat_diff_distrib' flip: drop_drop)
  moreover have "(p + c * 4) mod 4 = 0" using ok(2) by simp
  ultimately show ?thesis
    using ok assms(2,3) by (simp add: f32_view_def)
qed

lemma WriteOutput_negative_cursor:
  assumes off: "outputOffset s = - c" and c: "0 < c"
    and view: "f32_view (heap32 env (wasm s)) (ptr (outputPointer s)) n = Some decoded"
    and buf: "audioBuffer s = Some buf"
    and fits: "n - c \<le> int (length buf)"
  shows "WriteOutput env n s =
           Inr (s\<lparr>audioBuffer := Some (drop (nat c) decoded @ drop (nat (n - c)) buf),
                  outputOffset := n - c\<rparr>)"
proof (cases "c < n")
  case True
  have len: "int (length decoded) = n" using view by (rule f32_view_length)
  have tv: "f32_view (heap32 env (wasm s)) (ptr (outputPointer s) + c * 4) (n - c)
              = Some (drop (nat c) decoded)"
    using view c True by (rule f32_view_trim)
  have l2: "int (length (drop (nat c) decoded)) = n - c" using len c True by simp
  have l3: "length decoded - nat c = nat (n - c)" using len c True by linarith
  show ?thesis
    using True c fits l2
    by (simp add: WriteOutput_def off tv buf typed_set_def Let_def l3)
next
  case False
  have len: "int (length decoded) = n" using view by (rule f32_view_length)
  then have "drop (nat c) decoded = []" using False c by simp
  moreover have "s\<lparr>audioBuffer := Some buf, outputOffset := n - c\<rparr> = s\<lparr>outputOffset := n - c\<rparr>"
    using buf by simp
  ultimately show ?thesis using False by (simp add: WriteOutput_def off)
qed

lemma WriteOutput_overflow:
  assumes buf: "audioBuffer s = Some buf"
    and view: "f32_view (heap32 env (wasm s)) (ptr (outputPointer s)) ret = Some decoded"
    and over: "int (length buf) < outputOffset s + ret"
  shows "WriteOutput env ret s = Inl (BufferOverflow, s)"
proof (cases "outputOffset s < 0")
  case True
  define c where "c = - outputOffset s"
  have c: "0 < c" "c < ret" using True over by (simp_all add: c_def)
  have tv: "f32_view (heap32 env (wasm s)) (ptr (outputPointer s) + c * 4) (ret - c)
              = Some (drop (nat c) decoded)"
    using view c by (rule f32_view_trim)
  have len: "int (length decoded) = ret" using view by (rule f32_view_length)
  have "int (length (drop (nat c) decoded)) = ret - c" using len c by simp
  then show ?thesis
    using True over tv buf c unfolding c_def
    by (simp add: WriteOutput_def Let_def)
next
  case False
  have len: "int (length decoded) = ret" using view by (rule f32_view_length)
  show ?thesis
    using False over view buf len by (simp add: WriteOutput_def Let_def)
qed

lemma WriteOutput_cursor_bound:
  assumes "WriteOutput env ret s = Inr s'" and "audioBuffer s = Some buf"
  shows "\<exists>buf'. audioBuffer s' = Some buf' \<and> length buf' = length buf
           \<and> outputOffset s' \<le> int (length buf')"
proof (cases "0 < ret + outputOffset s")
  case False
  then have "s' = s\<lparr>outputOffset := outputOffset s + ret\<rparr>"
    using assms(1) by (simp add: WriteOutput_def)
  then show ?thesis using False assms(2) by simp
next
  case True
  show ?thesis
  proof (cases "outputOffset s < 0")
    case neg: True
    from assms True neg obtain t where
      t: "f32_view (heap32 env (wasm s)) (ptr (outputPointer s) + - outputOffset s * 4)
             (ret - - outputOffset s) = Some t"
      and fit: "int (length t) \<le> int (length buf)"
      and s': "s' = s\<lparr>audioBuffer := Some (typed_set buf t 0),
                        outputOffset := outputOffset s + ret\<rparr>"
      by (auto simp: WriteOutput_def Let_def split: option.splits if_splits)
    have "int (length t) = ret - - outputOffset s" using t by (rule f32_view_length)
    then show ?thesis using s' fit by (simp add: typed_set_def)
  next
    case pos: False
    from assms True pos obtain t where
      t: "f32_view (heap32 env (wasm s)) (ptr (outputPointer s)) ret = Some t"
      and fit: "outputOffset s + int (length t) \<le> int (length buf)"
      and s': "s' = s\<lparr>audioBuffer := Some (typed_set buf t (outputOffset s)),
                        outputOffset := outputOffset s + ret\<rparr>"
      by (auto simp: WriteOutput_def Let_def split: option.splits if_splits)
    have "int (length t) = ret" using t by (rule f32_view_length)
    then show ?thesis using s' fit pos by (simp add: typed_set_def)
  qed
qed

subsection \<open>Blocks, the duration and the result\<close>

lemma ParseBlock_lacing:
  "getUint8 data position = Inr firstByte \<Longrightarrow>
   getUint8 data (position + vint_size firstByte + 2) = Inr flags \<Longrightarrow> flags AND 6 \<noteq> 0 \<Longrightarrow>
     ParseBlock env data position sz s = Inl (LacingNotSupported, s)"
  by (simp add: ParseBlock_def Let_def)

lemma leaf_block:
  "ident = 161 \<or> ident = 163 \<Longrightarrow>
     \<not> is_master ident \<and> leaf env ident data position sz s = ParseBlock env data position sz s"
  by (auto simp: is_master_def leaf_def)

lemma alloc_output_audioBuffer:
  "alloc_output env s = Inr s' \<Longrightarrow> audioBuffer s' = audioBuffer s"
  by (auto simp: alloc_output_def Let_def split: if_splits prod.splits option.splits)

lemma alloc_input_audioBuffer: "audioBuffer (alloc_input env s) = audioBuffer s"
  by (auto simp: alloc_input_def Let_def split: prod.splits)

lemma CreateDecoder_buffer:
  assumes "CreateDecoder env duration s = Inr s'"
  shows "\<exists>n. ToIndex (CalculateAudioBufferSize (of_integer 48000) (of_integer 1)
                 (add64 duration (of_integer 120))) = Inr n
             \<and> audioBuffer s' = Some (replicate (nat n) 0)"
proof -
  let ?len = "CalculateAudioBufferSize (of_integer 48000) (of_integer 1)
                 (add64 duration (of_integer 120))"
  from assms obtain buf s1 where
    nb: "new_Float32Array env ?len = Inr buf"
    and a: "alloc_output env (s\<lparr>audioBuffer := Some buf\<rparr>) = Inr s1"
    and b: "audioBuffer s' = audioBuffer (alloc_input env s1)"
    by (auto simp: CreateDecoder_def Let_def split: sum.splits prod.splits if_splits)
  from nb obtain n where n: "ToIndex ?len = Inr n" and buf: "buf = replicate (nat n) 0"
    by (auto simp: new_Float32Array_def split: sum.splits if_splits)
  have "audioBuffer s' = Some buf"
    using a b alloc_output_audioBuffer [OF a] by (simp add: alloc_input_audioBuffer)
  then show ?thesis using n buf by simp
qed

lemma length_buffer_bytes: "length (buffer_bytes buf) = 4 * length buf"
  by (induction buf) (simp_all add: buffer_bytes_def sample_bytes_def)

lemma job_negative_cursor:
  assumes w: "ParseMaster fuel env arrayBuffer s 0 (int (length arrayBuffer)) = Some (Inr s1)"
    and buf: "audioBuffer s1 = Some buf" and neg: "outputOffset s1 < 0"
  shows "job_result (OpusDecode fuel env arrayBuffer s)
           = Some (Inr (take (nat (4 * int (length buf) + 4 * outputOffset s1)) (buffer_bytes buf)))"
proof -
  have "ArrayBuffer_slice (buffer_bytes buf) 0 (outputOffset s1 * 4)
          = take (nat (4 * int (length buf) + 4 * outputOffset s1)) (buffer_bytes buf)"
    using neg
    by (simp add: ArrayBuffer_slice_def slice_bound_def length_buffer_bytes Let_def max_def
          mult.commute)
  then show ?thesis
    using w buf by (simp add: OpusDecode_def job_result_def DestroyDecoder_def Let_def)
qed

subsection \<open>Values on the small instance\<close>

lemma floor48_values:
  "floor_times_0_000048 8388607 = 402"
  "floor_times_0_000048 2105376 = 101"
  "floor_times_0_000048 2097152 = 100"
  by code_simp+

lemma floor48_delays:
  "floor_times_0_000048 6500000 = 312"
  "floor_times_0_000048 1000000 = 48"
  "floor_times_0_000048 2147483647 = 103079"
  by code_simp+

lemma len48_0: "ToIndex (CalculateAudioBufferSize (of_integer 48000) (of_integer 1)
                  (add64 (Fin 0 (- 149)) (of_integer 120))) = Inr 5760"
  by code_simp

lemma len48_40: "ToIndex (CalculateAudioBufferSize (of_integer 48000) (of_integer 1)
                  (add64 (Fin 10485760 (- 18)) (of_integer 120))) = Inr 7680"
  by code_simp

lemma len48_64th: "ToIndex (CalculateAudioBufferSize (of_integer 48000) (of_integer 1)
                  (add64 (Fin 8388608 (- 29)) (of_integer 120))) = Inr 5760"
  by code_simp

lemma create_toy:
  "ToIndex (CalculateAudioBufferSize (of_integer 48000) (of_integer 1)
      (add64 duration (of_integer 120))) = Inr n \<Longrightarrow> n \<le> 4294967295 \<Longrightarrow>
   CreateDecoder toy_native duration (initial_vars toy_world) =
     Inr \<lparr>decoder = Some 1, audioBuffer = Some (replicate (nat n) 0), inputPointer = Some 8200,
          outputBuffer = Some 2048, outputPointer = Some 8, outputOffset = 0,
          wasm = (replicate 8192 0, 10248)\<rparr>"
  by (simp add: CreateDecoder_def new_Float32Array_def toy_native_def toy_world_def
        initial_vars_def alloc_output_def alloc_input_def bufferSize_def f32_view_def Let_def)

lemma walk_duration_delay:
  assumes r: "ReadVInt [0x44, 0x89, 0x84, 0, 0, 0, 0, 0x56, 0xAA, 0x84, a, b, c, d] 10 4 255 = Inr D"
  shows "ParseMaster 3 toy_native [0x44, 0x89, 0x84, 0, 0, 0, 0, 0x56, 0xAA, 0x84, a, b, c, d]
           (initial_vars toy_world) 0 14
         = Some (Inr \<lparr>decoder = Some 1, audioBuffer = Some (replicate 5760 0),
              inputPointer = Some 8200, outputBuffer = Some 2048, outputPointer = Some 8,
              outputOffset = - floor_times_0_000048 D, wasm = (replicate 8192 0, 10248)\<rparr>)"
proof -
  let ?d = "[0x44, 0x89, 0x84, 0, 0, 0, 0, 0x56, 0xAA, 0x84, a, b, c, d] :: byte list"
  let ?s1 = "\<lparr>decoder = Some 1, audioBuffer = Some (replicate 5760 0), inputPointer = Some 8200,
        outputBuffer = Some 2048, outputPointer = Some 8, outputOffset = 0,
        wasm = (replicate 8192 0, 10248)\<rparr> :: (sample list \<times> int) vars"
  have h1: "read_header ?d 0 = Inr (17545, 4, 3)"
    by (simp add: ev_bytes ev_read Let_def)
  have f: "getFloat32 ?d 3 = Inr (Fin 0 (- 149))"
    by (simp add: ev_bytes getFloat32_def decode_float_def Let_def inf_of_def)
  have l1: "leaf toy_native 17545 ?d 3 4 (initial_vars toy_world) = Inr ?s1"
    using create_toy [OF len48_0] by (simp add: leaf_def ParseDuration_def f)
  have "in_view ?d 10 4" by (simp add: in_view_def)
  have h2: "read_header ?d 7 = Inr (22186, 4, 10)"
    by (simp add: ev_bytes ev_read Let_def)
  have l2: "leaf toy_native 22186 ?d 10 4 ?s1
              = Inr (?s1\<lparr>outputOffset := - floor_times_0_000048 D\<rparr>)"
    by (simp add: leaf_def ParseDelay_def r)
  show ?thesis
    using l2 by (simp add: ParseMaster_def ParseMaster_loop_numeral h1 h2 l1 is_master_def)
qed

subsection \<open>Rounding, and the floor of the scaled value\<close>

text \<open>
  \<open>bit_length\<close> brackets its argument between two powers of two, so a positive value whose
  exponent stays in the normal range is rounded to one of the two neighbours of its 53-bit
  prefix.  For an integer \<open>D\<close> below \<open>2 ^ 32\<close> the rounded product with the literal
  \<^verbatim>\<open>0.000048\<close> has the same floor as the exact product \<open>D * 48 / 1000000\<close>: the literal
  exceeds \<open>48 / 1000000\<close> by less than \<open>2 ^ - 67\<close> times \<open>11216 / 62500\<close>, and the exact
  product is a multiple of \<open>1 / 62500\<close>.
\<close>

lemma bit_length_pos: "0 < a \<Longrightarrow> 0 < bit_length a"
proof (induction a rule: bit_length.induct)
  case (1 a)
  show ?case
  proof (cases "0 < a div 2")
    case True
    then have "0 < bit_length (a div 2)" using "1.IH" "1.prems" by simp
    then show ?thesis using "1.prems" by (subst bit_length.simps) simp
  next
    case False
    then have "bit_length (a div 2) = 0" by (subst bit_length.simps) simp
    then show ?thesis using "1.prems" by (subst bit_length.simps) simp
  qed
qed

lemma bit_length_bounds:
  "0 < a \<Longrightarrow> 2 ^ nat (bit_length a - 1) \<le> a \<and> a < 2 ^ nat (bit_length a)"
proof (induction a rule: bit_length.induct)
  case (1 a)
  show ?case
  proof (cases "0 < a div 2")
    case False
    then have a1: "a = 1" using "1.prems" by linarith
    have "bit_length (1 div 2) = 0" by (subst bit_length.simps) simp
    then have "bit_length 1 = 1" by (subst bit_length.simps) simp
    then show ?thesis using a1 by simp
  next
    case True
    let ?b = "bit_length (a div 2)"
    have ih: "2 ^ nat (?b - 1) \<le> a div 2" "a div 2 < 2 ^ nat ?b"
      using "1.IH" "1.prems" True by simp_all
    have bp: "0 < ?b" using True by (rule bit_length_pos)
    have b: "bit_length a = 1 + ?b" using "1.prems" by (subst bit_length.simps) simp
    have n1: "nat (bit_length a - 1) = Suc (nat (?b - 1))" using b bp by simp
    have n2: "nat (bit_length a) = Suc (nat ?b)" using b bp by simp
    have "2 * 2 ^ nat (?b - 1) \<le> a" using ih(1) by linarith
    moreover have "a < 2 * 2 ^ nat ?b" using ih(2) by linarith
    ultimately show ?thesis by (simp add: n1 n2)
  qed
qed

lemma bit_length_le: "0 < a \<Longrightarrow> a < 2 ^ n \<Longrightarrow> bit_length a \<le> int n"
proof -
  assume a: "0 < a" "a < 2 ^ n"
  have "(2 :: int) ^ nat (bit_length a - 1) < 2 ^ n"
    using bit_length_bounds [OF a(1)] a(2) by linarith
  then have "nat (bit_length a - 1) < n" by simp
  then show ?thesis by linarith
qed

lemma bit_length_ge: "0 < a \<Longrightarrow> 2 ^ n \<le> a \<Longrightarrow> int n < bit_length a"
proof -
  assume a: "0 < a" "2 ^ n \<le> a"
  have "(2 :: int) ^ n < 2 ^ nat (bit_length a)"
    using bit_length_bounds [OF a(1)] a(2) by linarith
  then have "n < nat (bit_length a)" by simp
  then show ?thesis by linarith
qed

lemma int_div_less: "0 < d \<Longrightarrow> a < c * d \<Longrightarrow> a div d < (c::int)"
proof -
  assume d: "0 < d" and h: "a < c * d"
  have "a div d * d + a mod d = a" by simp
  moreover have "0 \<le> a mod d" using d by simp
  ultimately have "a div d * d \<le> a" by linarith
  then have "a div d * d < c * d" using h by linarith
  then show ?thesis using d by (simp add: mult_less_cancel_right)
qed

lemma int_div_ge: "0 < d \<Longrightarrow> c * d \<le> a \<Longrightarrow> (c::int) \<le> a div d"
proof -
  assume d: "0 < d" and h: "c * d \<le> a"
  have "(c * d) div d \<le> a div d" using h d by (rule zdiv_mono1)
  then show ?thesis using d by simp
qed

lemma int_div_mult_le: "0 < d \<Longrightarrow> a div d * d \<le> (a::int)"
proof -
  assume d: "0 < d"
  have "a div d * d + a mod d = a" by simp
  moreover have "0 \<le> a mod d" using d by simp
  ultimately show ?thesis by linarith
qed

lemma round_half_even_bounds:
  "a div 2 ^ s \<le> round_half_even a s \<and> round_half_even a s \<le> a div 2 ^ s + 1
     \<and> (a mod 2 ^ s = 0 \<longrightarrow> round_half_even a s = a div 2 ^ s)"
  by (simp add: round_half_even_def Let_def)

lemma round64_pos:
  assumes m: "0 < m" and lo: "- 1022 \<le> bit_length m - 1 + e" and hi: "bit_length m + e \<le> 1000"
  shows "\<exists>R. round64 m e = Fin R (e + int (nat (bit_length m - 53)))
            \<and> m div 2 ^ nat (bit_length m - 53) \<le> R
            \<and> R \<le> m div 2 ^ nat (bit_length m - 53) + 1
            \<and> (m mod 2 ^ nat (bit_length m - 53) = 0 \<longrightarrow> R = m div 2 ^ nat (bit_length m - 53))"
proof (cases "bit_length m \<le> 53")
  case True
  then have "round64 m e = Fin m e"
    using m lo hi by (simp add: round64_def Let_def max_def)
  moreover have "nat (bit_length m - 53) = 0" using True by simp
  ultimately show ?thesis by simp
next
  case False
  define b where "b = bit_length m"
  define s where "s = nat (b - 53)"
  define t where "t = m div 2 ^ s"
  define t' where "t' = round_half_even m s"
  have b53: "53 < b" using False by (simp add: b_def)
  have s: "int s = b - 53" "0 < s" using b53 by (simp_all add: s_def)
  have q: "max (b - 1 + e) (- 1022) - 52 = e + int s"
    using lo s by (simp add: b_def max_def)
  have bnd: "2 ^ nat (b - 1) \<le> m" "m < 2 ^ nat b"
    using bit_length_bounds [OF m] by (simp_all add: b_def)
  have nb: "nat b = s + 53" "nat (b - 1) = s + 52" using s b53 by linarith+
  have "m < 2 ^ 53 * 2 ^ s" using bnd(2) by (simp add: nb power_add mult.commute)
  then have t_hi: "t < 2 ^ 53" unfolding t_def
    by (intro int_div_less) simp_all
  have "2 ^ 52 * 2 ^ s \<le> m" using bnd(1) by (simp add: nb power_add mult.commute)
  then have t_lo: "2 ^ 52 \<le> t" unfolding t_def
    by (intro int_div_ge) simp_all
  have rb: "t \<le> t'" "t' \<le> t + 1" "m mod 2 ^ s = 0 \<longrightarrow> t' = t"
    using round_half_even_bounds [of m s] by (simp_all add: t_def t'_def)
  then have t'_pos: "0 < t'" and t'_hi: "t' < 2 ^ 54" using t_lo t_hi by auto
  have bl: "bit_length t' \<le> 54" using bit_length_le [OF t'_pos, of 54] t'_hi by simp
  have no_over: "\<not> 1024 < bit_length t' + (e + int s)"
    using bl hi s by (simp add: b_def)
  have ns: "nat (e + int s - e) = s" by simp
  have "round64 m e = Fin t' (e + int s)"
    using m no_over s(2)
    by (simp add: round64_def Let_def b_def [symmetric] q ns t'_def [symmetric])
  then show ?thesis
    using rb by (auto simp: b_def [symmetric] s_def [symmetric] t_def [symmetric])
qed

lemma floor_times_exact:
  assumes D0: "0 \<le> D" and D32: "D < 2 ^ 32"
  shows "floor_times_0_000048 D = (3 * D) div 62500"
proof (cases "D = 0")
  case True
  then show ?thesis
    by (simp add: floor_times_0_000048_def of_integer_def round64_def lit_0_000048_def
          floor_dyadic_def)
next
  case False
  then have Dpos: "0 < D" using D0 by simp
  define N where "N = D * 7083549724304468"
  define k where "k = (3 * D) div 62500"
  define rem where "rem = (3 * D) mod 62500"
  define s where "s = nat (bit_length N - 53)"
  have Npos: "0 < N" using Dpos by (simp add: N_def)
  have N85: "N < 2 ^ 85" using D32 by (simp add: N_def)
  have blD: "bit_length D \<le> 32" using bit_length_le [OF Dpos, of 32] D32 by simp
  have blD0: "0 < bit_length D" using Dpos by (rule bit_length_pos)
  have blN: "bit_length N \<le> 85" using bit_length_le [OF Npos, of 85] N85 by simp
  have blN0: "0 < bit_length N" using Npos by (rule bit_length_pos)
  have s32: "s \<le> 32" using blN by (simp add: s_def)
  \<comment> \<open>the integer operand is exact\<close>
  have "nat (bit_length D - 53) = 0" using blD by simp
  then have ofD: "of_integer D = Fin D 0"
    using round64_pos [of D 0] Dpos blD blD0 by (auto simp: of_integer_def)
  \<comment> \<open>the product, rounded\<close>
  obtain R where R: "round64 N (- 67) = Fin R (- 67 + int s)"
    and Rlo: "N div 2 ^ s \<le> R" and Rhi: "R \<le> N div 2 ^ s + 1"
    using round64_pos [of N "- 67"] Npos blN blN0 by (auto simp: s_def)
  have prod: "mul64 (of_integer D) lit_0_000048 = Fin R (- 67 + int s)"
    using R by (simp add: ofD lit_0_000048_def N_def)
  have neg: "\<not> 0 \<le> - 67 + int s" using s32 by simp
  have ex: "nat (- (- 67 + int s)) = 67 - s" using s32 by simp
  have "floor_dyadic R (- 67 + int s) = R div 2 ^ (67 - s)"
    unfolding floor_dyadic_def using neg ex by presburger
  then have fl: "floor_times_0_000048 D = R div 2 ^ (67 - s)"
    by (simp add: floor_times_0_000048_def prod)
  \<comment> \<open>the exact product lies well inside the unit interval above \<open>k\<close>\<close>
  have split: "3 * D = 62500 * k + rem" "0 \<le> rem" "rem < 62500"
    using mult_div_mod_eq [of 62500 "3 * D"] by (simp_all add: k_def rem_def)
  have scale: "62500 * N = 3 * D * 147573952589676412928 + 11216 * D"
    by (simp add: N_def)
  have lower: "k * 147573952589676412928 \<le> N"
    using split scale Dpos by linarith
  have D32': "D < 4294967296" using D32 by simp
  have "62500 * N = (62500 * k + rem) * 147573952589676412928 + 11216 * D"
    using split(1) scale by simp
  then have expand: "62500 * N = 62500 * (k * 147573952589676412928)
                       + rem * 147573952589676412928 + 11216 * D"
    by (simp add: algebra_simps)
  have r: "rem * 147573952589676412928 \<le> 62499 * 147573952589676412928"
    using split(3) by simp
  have d: "11216 * D < 11216 * 4294967296" using D32' by simp
  have "62500 * (N + 4294967296) < 62500 * ((k + 1) * 147573952589676412928)"
    using expand r d by (simp add: algebra_simps)
  then have upper: "N + 4294967296 < (k + 1) * 147573952589676412928" by simp
  \<comment> \<open>so does the rounded product\<close>
  have pw: "(2 :: int) ^ (67 - s) * 2 ^ s = 147573952589676412928"
    using s32 by (simp flip: power_add)
  have ps: "(2 :: int) ^ s \<le> 4294967296"
    using s32 power_increasing [of s 32 "2 :: int"] by simp
  have "k * 2 ^ (67 - s) * 2 ^ s \<le> N" using lower pw by (simp add: mult.assoc)
  then have "k * 2 ^ (67 - s) \<le> N div 2 ^ s" by (intro int_div_ge) simp_all
  then have a: "k * 2 ^ (67 - s) \<le> R" using Rlo by linarith
  have "N div 2 ^ s * 2 ^ s \<le> N" by (intro int_div_mult_le) simp
  moreover have "R * 2 ^ s \<le> (N div 2 ^ s + 1) * 2 ^ s"
    using Rhi by (intro mult_right_mono) simp_all
  ultimately have "R * 2 ^ s \<le> N + 2 ^ s" by (simp add: distrib_right)
  then have "R * 2 ^ s < (k + 1) * 2 ^ (67 - s) * 2 ^ s"
    using upper ps pw by (simp add: mult.assoc)
  then have b: "R < (k + 1) * 2 ^ (67 - s)" by (simp add: mult_less_cancel_right)
  have "k \<le> R div 2 ^ (67 - s)" using a by (intro int_div_ge) simp_all
  moreover have "R div 2 ^ (67 - s) < k + 1" using b by (intro int_div_less) simp_all
  ultimately show ?thesis using fl by (simp add: k_def)
qed

lemma floor_times_real:
  assumes "0 \<le> D" and "D < 2 ^ 32"
  shows "floor_times_0_000048 D = \<lfloor>real_of_int D * 0.000048\<rfloor>"
proof -
  have "real_of_int D * 0.000048 = real_of_int (3 * D) / real_of_int 62500"
    by simp
  then have "\<lfloor>real_of_int D * 0.000048\<rfloor> = (3 * D) div 62500"
    by (simp only: floor_divide_of_int_eq)
  then show ?thesis using floor_times_exact [OF assms] by simp
qed

subsection \<open>Durations that are whole numbers\<close>

text \<open>
  A value that is a positive integer below \<open>2 ^ 53\<close> is not changed by rounding, so the
  sum and the products of \<open>CalculateAudioBufferSize\<close> are exact when the duration is a whole
  number of milliseconds: \<open>48000 / 1000\<close> is 48 exactly.
\<close>

lemma dyadic_value_powi: "dyadic_value m e = of_int m * power_int 2 e"
proof (cases "0 \<le> e")
  case True
  then show ?thesis unfolding dyadic_value_def power_int_def by simp
next
  case False
  then show ?thesis unfolding dyadic_value_def power_int_def by (simp add: field_simps)
qed

lemma bit_length_shift:
  assumes "0 < V"
  shows "bit_length (V * 2 ^ n) = bit_length V + int n"
proof -
  have b: "2 ^ nat (bit_length V - 1) \<le> V" "V < 2 ^ nat (bit_length V)"
    using bit_length_bounds [OF assms] by simp_all
  have p: "0 < bit_length V" using assms by (rule bit_length_pos)
  have m: "0 < V * 2 ^ n" using assms by simp
  have "V * 2 ^ n < 2 ^ nat (bit_length V) * 2 ^ n" using b(2) by simp
  then have "V * 2 ^ n < 2 ^ (nat (bit_length V) + n)" by (simp add: power_add)
  then have le: "bit_length (V * 2 ^ n) \<le> int (nat (bit_length V) + n)"
    by (rule bit_length_le [OF m])
  have "2 ^ nat (bit_length V - 1) * 2 ^ n \<le> V * 2 ^ n" using b(1) by simp
  then have "2 ^ (nat (bit_length V - 1) + n) \<le> V * 2 ^ n" by (simp add: power_add)
  then have ge: "int (nat (bit_length V - 1) + n) < bit_length (V * 2 ^ n)"
    by (rule bit_length_ge [OF m])
  show ?thesis using le ge p by linarith
qed


lemma dyadic_add:
  "dyadic_value (m1 * 2 ^ nat (e1 - min e1 e2) + m2 * 2 ^ nat (e2 - min e1 e2)) (min e1 e2)
     = dyadic_value m1 e1 + dyadic_value m2 e2"
proof -
  let ?e = "min e1 e2"
  have p: "(2 :: rat) ^ nat (x - ?e) * power_int 2 ?e = power_int 2 x" if "?e \<le> x" for x
  proof -
    have "(2 :: rat) ^ nat (x - ?e) = power_int 2 (x - ?e)"
      using that by (simp add: power_int_def)
    moreover have "power_int (2 :: rat) (x - ?e + ?e) = power_int 2 (x - ?e) * power_int 2 ?e"
      by (rule power_int_add) simp
    ultimately show ?thesis by simp
  qed
  have "dyadic_value (m1 * 2 ^ nat (e1 - ?e) + m2 * 2 ^ nat (e2 - ?e)) ?e
          = of_int m1 * (2 ^ nat (e1 - ?e) * power_int 2 ?e)
            + of_int m2 * (2 ^ nat (e2 - ?e) * power_int 2 ?e)"
    by (simp add: dyadic_value_powi algebra_simps)
  also have "\<dots> = of_int m1 * power_int 2 e1 + of_int m2 * power_int 2 e2"
    by (simp only: p [of e1] p [of e2] min.cobounded1 min.cobounded2)
  finally show ?thesis by (simp add: dyadic_value_powi)
qed

lemma dyadic_mul:
  "dyadic_value (m1 * m2) (e1 + e2) = dyadic_value m1 e1 * dyadic_value m2 e2"
  by (simp add: dyadic_value_powi power_int_add)

lemma round64_integer:
  assumes V: "0 < V" "V < 2 ^ 53" and v: "dyadic_value m e = of_int V"
  shows "\<exists>R e'. round64 m e = Fin R e' \<and> dyadic_value R e' = of_int V"
proof (cases "0 \<le> e")
  case True
  from v True have "(of_int (m * 2 ^ nat e) :: rat) = of_int V"
    by (simp add: dyadic_value_def)
  then have mv: "m * 2 ^ nat e = V" by (simp only: of_int_eq_iff)
  then have m: "0 < m" using V(1) by (simp add: zero_less_mult_iff flip: mv)
  have "m * 1 \<le> m * 2 ^ nat e" using m by (intro mult_left_mono) simp_all
  then have mV: "m \<le> V" using mv by simp
  then have bl: "bit_length m \<le> 53" using bit_length_le [OF m, of 53] V(2) by simp
  have bp: "0 < bit_length m" using m by (rule bit_length_pos)
  have "1 * 2 ^ nat e \<le> m * 2 ^ nat e" using m by (intro mult_right_mono) simp_all
  then have pe: "(2 :: int) ^ nat e < 2 ^ 53" using mv V(2) by simp
  have "nat e < 53" by (rule power_less_imp_less_exp [OF _ pe]) simp
  then have e53: "e < 53" by simp
  have z: "nat (bit_length m - 53) = 0" using bl by simp
  have "round64 m e = Fin m e"
    using round64_pos [of m e] m bl bp e53 True z by auto
  then show ?thesis using v by blast
next
  case False
  define n where "n = nat (- e)"
  have n: "int n = - e" "0 < n" using False by (simp_all add: n_def)
  from v False have "of_int m / 2 ^ n = (of_int V :: rat)"
    by (simp add: dyadic_value_def n_def)
  then have "(of_int m :: rat) = of_int (V * 2 ^ n)" by (simp add: field_simps)
  then have mv: "m = V * 2 ^ n" by (simp only: of_int_eq_iff)
  have m: "0 < m" using V(1) by (simp add: mv)
  have blm: "bit_length m = bit_length V + int n"
    unfolding mv using V(1) by (rule bit_length_shift)
  have blV: "bit_length V \<le> 53" using bit_length_le [OF V(1), of 53] V(2) by simp
  have bpV: "0 < bit_length V" using V(1) by (rule bit_length_pos)
  define s where "s = nat (bit_length m - 53)"
  have sn: "s \<le> n" using blm blV by (simp add: s_def)
  have split: "m = V * 2 ^ (n - s) * 2 ^ s"
    using sn by (simp add: mv mult.assoc flip: power_add)
  have md: "m mod 2 ^ s = 0" by (subst split) simp
  have dv: "m div 2 ^ s = V * 2 ^ (n - s)" by (subst split) simp
  obtain R where R: "round64 m e = Fin R (e + int s)" and Rv: "R = V * 2 ^ (n - s)"
    using round64_pos [of m e] m blm blV bpV n md dv by (auto simp: s_def)
  have "dyadic_value R (e + int s) = of_int V"
  proof (cases "s = n")
    case True
    then show ?thesis using n by (simp add: dyadic_value_def Rv)
  next
    case False
    then have lt: "s < n" using sn by simp
    then have neg: "\<not> 0 \<le> e + int s" using n by simp
    have ex: "nat (- e - int s) = n - s" using n lt by simp
    show ?thesis using neg by (simp add: dyadic_value_def Rv ex)
  qed
  then show ?thesis using R by blast
qed

lemma trunc_integer:
  assumes v: "dyadic_value m e = of_int W" and W: "0 \<le> W"
  shows "trunc_dyadic m e = W"
proof (cases "0 \<le> e")
  case True
  from v True have "(of_int (m * 2 ^ nat e) :: rat) = of_int W"
    by (simp add: dyadic_value_def)
  then have mv: "m * 2 ^ nat e = W" by (simp only: of_int_eq_iff)
  then have "0 \<le> m" using W by (simp add: zero_le_mult_iff flip: mv)
  then show ?thesis using True mv
    by (cases "m = 0") (simp_all add: trunc_dyadic_def floor_dyadic_def)
next
  case False
  define n where "n = nat (- e)"
  from v False have "of_int m / 2 ^ n = (of_int W :: rat)"
    by (simp add: dyadic_value_def n_def)
  then have "(of_int m :: rat) = of_int (W * 2 ^ n)" by (simp add: field_simps)
  then have mv: "m = W * 2 ^ n" by (simp only: of_int_eq_iff)
  then have m0: "0 \<le> m" using W by simp
  have "floor_dyadic m e = W" using False by (simp add: floor_dyadic_def mv n_def)
  then show ?thesis using m0 mv W
    by (cases "W = 0") (simp_all add: trunc_dyadic_def)
qed

lemma rate_per_ms:
  "mul64 (div64 (of_integer 48000) (of_integer 1000)) (of_integer 1) = Fin 6755399441055744 (- 47)"
  "of_integer 120 = Fin 120 0"
  by code_simp+

lemma integral_duration_length:
  assumes k: "0 \<le> k" "k < 2 ^ 32" and v: "dyadic_value m e = of_int k"
  shows "ToIndex (CalculateAudioBufferSize (of_integer 48000) (of_integer 1)
                    (add64 (Fin m e) (of_integer 120))) = Inr ((k + 120) * 48)"
proof -
  define S where "S = m * 2 ^ nat (e - min e 0) + 120 * 2 ^ nat (0 - min e 0)"
  have "dyadic_value S (min e 0) = dyadic_value m e + dyadic_value 120 0"
    unfolding S_def by (rule dyadic_add)
  then have Sv: "dyadic_value S (min e 0) = of_int (k + 120)"
    by (simp add: v) (simp add: dyadic_value_def)
  have "k + 120 < 2 ^ 53" using k by simp
  then obtain R e2 where R: "round64 S (min e 0) = Fin R e2"
    and Rv: "dyadic_value R e2 = of_int (k + 120)"
    using round64_integer [OF _ _ Sv] k by auto
  have sum: "add64 (Fin m e) (of_integer 120) = Fin R e2"
    using R by (simp add: rate_per_ms Let_def S_def)
  have "dyadic_value (6755399441055744 * R) (- 47 + e2)
          = dyadic_value 6755399441055744 (- 47) * dyadic_value R e2"
    by (rule dyadic_mul)
  also have "dyadic_value 6755399441055744 (- 47) = 48" by (simp add: dyadic_value_def)
  finally have Pv: "dyadic_value (6755399441055744 * R) (- 47 + e2) = of_int ((k + 120) * 48)"
    by (simp add: Rv)
  have "(k + 120) * 48 < 2 ^ 53" using k by simp
  then obtain R3 e3 where R3: "round64 (6755399441055744 * R) (- 47 + e2) = Fin R3 e3"
    and R3v: "dyadic_value R3 e3 = of_int ((k + 120) * 48)"
    using round64_integer [OF _ _ Pv] k by auto
  have len: "CalculateAudioBufferSize (of_integer 48000) (of_integer 1)
               (add64 (Fin m e) (of_integer 120)) = Fin R3 e3"
    using R3 by (simp add: CalculateAudioBufferSize_def rate_per_ms(1) sum)
  have "trunc_dyadic R3 e3 = (k + 120) * 48" using R3v k by (intro trunc_integer) simp_all
  then show ?thesis using k by (simp add: len ToIndex_def)
qed

subsection \<open>The value that a payload carries\<close>

text \<open>
  The bytes of a payload, read as one unsigned big-endian number.  While that number is
  below \<open>2 ^ 31\<close> no shift of \<open>ReadVInt\<close> leaves the signed 32-bit range, and \<open>ReadVInt\<close>
  with the mask 255 returns it.
\<close>

lemma be_uint_snoc: "be_uint (xs @ [b]) = be_uint xs * 256 + uint b"
  by (simp add: be_uint_def)

lemma be_uint_nonneg: "0 \<le> be_uint xs"
proof (induction xs rule: rev_induct)
  case Nil
  show ?case by (simp add: be_uint_def)
next
  case (snoc b xs)
  then show ?case by (simp add: be_uint_snoc)
qed

lemma be_uint_prefix: "be_uint xs \<le> be_uint (xs @ ys)"
proof (induction ys rule: rev_induct)
  case Nil
  show ?case by simp
next
  case (snoc b ys)
  have "be_uint (xs @ ys @ [b]) = be_uint (xs @ ys) * 256 + uint b"
    using be_uint_snoc [of "xs @ ys" b] by simp
  moreover have "0 \<le> be_uint (xs @ ys)" by (rule be_uint_nonneg)
  moreover have "0 \<le> uint b" by simp
  ultimately show ?case using snoc by linarith
qed

lemma bytes_at_Suc:
  "0 \<le> position \<Longrightarrow> nat position + n < length data \<Longrightarrow>
     bytes_at data position (Suc n) = bytes_at data position n @ [data ! (nat position + n)]"
  by (simp add: bytes_at_def take_Suc_conv_app_nth)

lemma bytes_at_prefix:
  "n \<le> m \<Longrightarrow> \<exists>ys. bytes_at data position m = bytes_at data position n @ ys"
proof -
  assume "n \<le> m"
  then have "m = n + (m - n)" by simp
  then have "take m (drop (nat position) data)
               = take n (drop (nat position) data) @ take (m - n) (drop n (drop (nat position) data))"
    using take_add [of n "m - n" "drop (nat position) data"] by simp
  then show ?thesis by (auto simp: bytes_at_def)
qed

lemma shl8_small: "0 \<le> v \<Longrightarrow> v * 256 < 2 ^ 31 \<Longrightarrow> shl8 v = v * 256"
  by (simp add: shl8_def ToInt32_def to_signed_def)

lemma ReadVInt_loop_value:
  assumes "0 \<le> position" and "position + len \<le> int (length data)"
    and "1 \<le> i" and "i \<le> len"
    and "v = be_uint (bytes_at data position (nat i))"
    and "be_uint (bytes_at data position (nat len)) < 2 ^ 31"
  shows "ReadVInt_loop data position len i v = Inr (be_uint (bytes_at data position (nat len)))"
  using assms
proof (induction data position len i v rule: ReadVInt_loop.induct)
  case (1 data position len i v)
  show ?case
  proof (cases "i < len")
    case False
    then have "i = len" using "1.prems" by simp
    then show ?thesis using "1.prems" by (subst ReadVInt_loop.simps) simp
  next
    case True
    have iv: "in_view data (position + i) 1" using True "1.prems" by (simp add: in_view_def)
    define b where "b = uint (data ! nat (position + i))"
    have g: "getUint8 data (position + i) = Inr b" using iv by (simp add: getUint8_def b_def)
    have ni: "nat (position + i) = nat position + nat i" using "1.prems" by simp
    have "nat position + nat i < length data" using True "1.prems" by simp
    then have nx: "bytes_at data position (nat (i + 1))
                 = bytes_at data position (nat i) @ [data ! nat (position + i)]"
      using bytes_at_Suc [of position "nat i" data] "1.prems" ni
      by (simp add: nat_add_distrib)
    then have val: "be_uint (bytes_at data position (nat (i + 1))) = v * 256 + b"
      using "1.prems" by (simp add: be_uint_snoc b_def)
    have "nat (i + 1) \<le> nat len" using True "1.prems" by simp
    then obtain ys where
      "bytes_at data position (nat len) = bytes_at data position (nat (i + 1)) @ ys"
      using bytes_at_prefix by blast
    then have "be_uint (bytes_at data position (nat (i + 1))) \<le> be_uint (bytes_at data position (nat len))"
      using be_uint_prefix by simp
    then have small: "v * 256 + b < 2 ^ 31" using val "1.prems" by simp
    have b0: "0 \<le> b" by (simp add: b_def)
    have v0: "0 \<le> v" using "1.prems" by (simp add: be_uint_nonneg)
    have sh: "shl8 v = v * 256" using v0 small b0 by (intro shl8_small) simp_all
    have "ReadVInt_loop data position len (i + 1) (shl8 v + b)
            = Inr (be_uint (bytes_at data position (nat len)))"
      using "1.prems" True val sh
      by (intro "1.IH" [OF True g]) simp_all
    then show ?thesis using True g by (subst ReadVInt_loop.simps) simp
  qed
qed

lemma ReadVInt_value:
  assumes "0 \<le> position" and "1 \<le> sz" and "position + sz \<le> int (length data)"
    and "be_uint (bytes_at data position (nat sz)) < 2 ^ 31"
  shows "ReadVInt data position sz 255 = Inr (be_uint (bytes_at data position (nat sz)))"
proof -
  define b where "b = uint (data ! nat position)"
  have "in_view data position 1" using assms by (simp add: in_view_def)
  then have g: "getUint8 data position = Inr b" by (simp add: getUint8_def b_def)
  have "0 \<le> b \<and> b < 256" using g by (rule getUint8_range)
  then have "take_bit 8 b = b" by (simp add: take_bit_int_eq_self)
  then have m: "b AND 255 = b" by (simp add: take_bit_eq_mask mask_eq_exp_minus_1)
  have "nat position < length data" using assms by simp
  then have "bytes_at data position (Suc 0) = [data ! nat position]"
    using bytes_at_Suc [of position 0 data] assms by (simp add: bytes_at_def)
  then have one: "b = be_uint (bytes_at data position (nat 1))"
    by (simp add: be_uint_def b_def)
  have "ReadVInt_loop data position sz 1 b = Inr (be_uint (bytes_at data position (nat sz)))"
    using assms one by (intro ReadVInt_loop_value) simp_all
  then show ?thesis using g m by (simp add: ReadVInt_def)
qed

subsection \<open>One iteration of the loop, and frames in blocks\<close>

lemma loop_leaf_step:
  "position < endp \<Longrightarrow> read_header data position = Inr (ident, sz, payload) \<Longrightarrow>
   \<not> is_master ident \<Longrightarrow> leaf env ident data payload sz s = Inr s1 \<Longrightarrow>
     ParseMaster_loop (Suc n) env data s position endp
       = ParseMaster_loop n env data s1 (payload + sz) endp"
  by simp

lemma loop_rest_error:
  "position < endp \<Longrightarrow> read_header data position = Inr (ident, sz, payload) \<Longrightarrow>
   (if is_master ident then ParseMaster_loop n env data s payload (payload + sz)
    else Some (leaf env ident data payload sz s)) = Some (Inr s1) \<Longrightarrow>
   ParseMaster_loop n env data s1 (payload + sz) endp = Some (Inl x) \<Longrightarrow>
     ParseMaster_loop (Suc n) env data s position endp = Some (Inl x)"
  by simp

lemma ParseFrame_overflow:
  assumes "0 \<le> ptr (inputPointer s)"
    and "ptr (inputPointer s) + int (length frame) \<le> 4 * int (length (heap32 env (wasm s)))"
    and "decode_frame env (heap_set env (wasm s) frame (ptr (inputPointer s))) (decoder s)
           (inputPointer s) (int (length frame)) (outputPointer s) maxOutputSamples = (ret, w)"
    and "0 < ret"
    and "f32_view (heap32 env w) (ptr (outputPointer s)) ret = Some decoded"
    and "audioBuffer s = Some buf"
    and "int (length buf) < outputOffset s + ret"
  shows "ParseFrame env frame s = Inl (BufferOverflow, s\<lparr>wasm := w\<rparr>)"
proof -
  have "WriteOutput env ret (s\<lparr>wasm := w\<rparr>) = Inl (BufferOverflow, s\<lparr>wasm := w\<rparr>)"
    using assms by (intro WriteOutput_overflow [where buf = buf and decoded = decoded]) simp_all
  then show ?thesis using assms by (simp add: ParseFrame_def Let_def)
qed

lemma ParseBlock_frame:
  assumes "getUint8 data position = Inr firstByte"
    and "getUint8 data (position + vint_size firstByte + 2) = Inr flags"
    and "flags AND 6 = 0"
    and "u8_view data (position + vint_size firstByte + 3) (sz - (vint_size firstByte + 3)) = Some frame"
  shows "ParseBlock env data position sz s = ParseFrame env frame s"
proof -
  have "u8_view data (3 + (position + vint_size firstByte)) (sz - (vint_size firstByte + 3))
          = Some frame"
    using assms(4) by (simp add: add.commute)
  then show ?thesis using assms(1-3) by (simp add: ParseBlock_def Let_def)
qed

subsection \<open>The memory of the small instance\<close>

text \<open>
  Writing bytes into the cells and reading them back, for the two frames used below: five
  bytes at address 16 of the eight-cell memory, and 2049 bytes at address 8200 of the
  memory of 8192 cells.
\<close>

lemma small_set:
  "heap_set toy_native ([0, 0, 0, 0, 0, 0, 0, 0], 24) [1, 2, 3, 4, 5] 16
     = ([0, 0, 0, 0, 67305985, 5, 0, 0], 24)"
  by (simp add: toy_native_def typed_set_def buffer_bytes_def sample_bytes_def sample_of_bytes_def)

lemma small_decode:
  "decode_frame toy_native ([0, 0, 0, 0, 67305985, 5, 0, 0], 24) (Some 1) (Some 16) 5 (Some 0) 4096
     = (5, ([1, 2, 3, 4, 5, 5, 0, 0], 24))"
  by (simp add: toy_native_def typed_set_def buffer_bytes_def sample_bytes_def ptr_def Let_def)

lemma replicate4: "replicate (4 + k) x = x # x # x # x # replicate k x"
  by (simp add: eval_nat_numeral)

lemma concat_replicate4: "concat (replicate n [x, x, x, x]) = replicate (4 * n) x"
  by (induction n) (simp_all add: replicate4)

lemma buffer_bytes_append: "buffer_bytes (xs @ ys) = buffer_bytes xs @ buffer_bytes ys"
  by (simp add: buffer_bytes_def)

lemma buffer_bytes_replicate:
  "sample_bytes c = [x, x, x, x] \<Longrightarrow> buffer_bytes (replicate n c) = replicate (4 * n) x"
  by (simp add: buffer_bytes_def concat_replicate4)

lemma bytes_samples_replicate:
  "bytes_samples (replicate (4 * n) x @ rest) = replicate n (sample_of_bytes x x x x) @ bytes_samples rest"
  by (induction n) (simp_all add: replicate4)

lemma bytes_samples_replicate_all:
  "bytes_samples (replicate (4 * n) x) = replicate n (sample_of_bytes x x x x)"
  using bytes_samples_replicate [of n x "[]"] by simp

lemma toy_set_2049:
  "heap_set toy_native (replicate 8192 0, 10248) (replicate 2049 1) 8200
     = (replicate 2050 0 @ replicate 512 16843009 @ [1] @ replicate 5629 0, 10248)"
proof -
  have z: "sample_bytes 0 = [0, 0, 0, 0]" by (simp add: sample_bytes_def)
  have a1: "buffer_bytes (replicate 8192 0) = replicate 32768 0"
    using buffer_bytes_replicate [OF z, of 8192] by simp
  have a2: "typed_set (replicate 32768 (0 :: byte)) (replicate 2049 1) 8200
              = replicate 8200 0 @ replicate 2049 1 @ replicate 22519 0"
    by (simp add: typed_set_def)
  have r1: "replicate 2049 (1 :: byte) = replicate (4 * 512) 1 @ [1]"
    using replicate_add [of 2048 1 "1 :: byte"] by simp
  have r3: "replicate 3 (0 :: byte) = [0, 0, 0]" by (simp add: numeral_3_eq_3)
  have r2: "replicate 22519 (0 :: byte) = [0, 0, 0] @ replicate (4 * 5629) 0"
    using replicate_add [of 3 22516 "0 :: byte"] by (simp add: r3)
  have r0: "replicate 8200 (0 :: byte) = replicate (4 * 2050) 0" by simp
  have "bytes_samples (replicate 8200 0 @ replicate 2049 1 @ replicate 22519 0)
          = bytes_samples (replicate (4 * 2050) 0 @ replicate (4 * 512) 1 @ [1, 0, 0, 0]
                             @ replicate (4 * 5629) 0 @ [])"
    by (simp only: r0 r1 r2 append_assoc append_Cons append_Nil append_Nil2)
  also have "\<dots> = replicate 2050 (sample_of_bytes 0 0 0 0) @ replicate 512 (sample_of_bytes 1 1 1 1)
                    @ [sample_of_bytes 1 0 0 0] @ replicate 5629 (sample_of_bytes 0 0 0 0)"
    by (simp only: bytes_samples_replicate bytes_samples_replicate_all append_Cons append_Nil
          bytes_samples.simps append_Nil2)
  also have "\<dots> = replicate 2050 0 @ replicate 512 16843009 @ [1] @ replicate 5629 0"
    by (simp add: sample_of_bytes_def)
  finally show ?thesis
    by (simp add: toy_native_def a1 a2)
qed

lemma toy_read_2049:
  "take 2049 (drop 8200 (buffer_bytes
       (replicate 2050 0 @ replicate 512 16843009 @ 1 # replicate 5629 0)))
     = replicate 2049 1"
proof -
  have z: "sample_bytes 0 = [0, 0, 0, 0]" "sample_bytes 16843009 = [1, 1, 1, 1]"
    "sample_bytes 1 = [1, 0, 0, 0]"
    by (simp_all add: sample_bytes_def)
  have b1: "buffer_bytes (1 # cs) = [1, 0, 0, 0] @ buffer_bytes cs" for cs
    by (simp add: buffer_bytes_def z)
  have "buffer_bytes (replicate 2050 0 @ replicate 512 16843009 @ 1 # replicate 5629 0)
          = replicate 8200 0 @ replicate 2048 1 @ [1, 0, 0, 0] @ replicate 22516 0"
    using buffer_bytes_replicate [OF z(1), of 2050] buffer_bytes_replicate [OF z(2), of 512]
          buffer_bytes_replicate [OF z(1), of 5629]
    by (simp add: buffer_bytes_append b1)
  moreover have "replicate 2049 (1 :: byte) = replicate 2048 1 @ [1]"
    using replicate_add [of 2048 1 "1 :: byte"] by simp
  ultimately show ?thesis by simp
qed

lemma toy_decode_2049:
  "decode_frame toy_native
     (replicate 2050 0 @ replicate 512 16843009 @ 1 # replicate 5629 0, 10248)
     (Some 1) (Some 8200) 2049 (Some 8) 4096
   = (2049, (replicate 2 0 @ replicate 2049 1 @ replicate 511 16843009 @ 1 # replicate 5629 0,
             10248))"
  by (simp add: toy_native_def ptr_def toy_read_2049 typed_set_def Let_def length_buffer_bytes)

lemma toy_frame_2049:
  "ParseFrame toy_native (replicate 2049 1)
         \<lparr>decoder = Some 1, audioBuffer = Some (replicate 5760 0), inputPointer = Some 8200,
          outputBuffer = Some 2048, outputPointer = Some 8, outputOffset = 0,
          wasm = (replicate 8192 0, 10248)\<rparr>
       = Inr \<lparr>decoder = Some 1, audioBuffer = Some (replicate 2049 1 @ replicate 3711 0),
            inputPointer = Some 8200, outputBuffer = Some 2048, outputPointer = Some 8,
            outputOffset = 2049,
            wasm = (replicate 2 0 @ replicate 2049 1 @ replicate 511 16843009 @ [1]
                      @ replicate 5629 0, 10248)\<rparr>"
proof -
  let ?s = "\<lparr>decoder = Some 1, audioBuffer = Some (replicate 5760 0), inputPointer = Some 8200,
          outputBuffer = Some 2048, outputPointer = Some 8, outputOffset = 0,
          wasm = (replicate 8192 0, 10248)\<rparr> :: (sample list \<times> int) vars"
  let ?h = "replicate 2 0 @ replicate 2049 1 @ replicate 511 16843009 @ 1 # replicate 5629 0
              :: sample list"
  have v: "f32_view ?h 8 2049 = Some (replicate 2049 1)"
    by (simp add: f32_view_def)
  have w: "WriteOutput toy_native 2049 (?s\<lparr>wasm := (?h, 10248)\<rparr>)
             = Inr (?s\<lparr>wasm := (?h, 10248),
                      audioBuffer := Some (replicate 2049 1 @ replicate 3711 0),
                      outputOffset := 2049\<rparr>)"
    by (simp add: WriteOutput_def ptr_def typed_set_def Let_def v toy_native_def)
  have "ParseFrame toy_native (replicate 2049 1) ?s
          = WriteOutput toy_native 2049 (?s\<lparr>wasm := (?h, 10248)\<rparr>)"
    by (simp add: ParseFrame_def ptr_def toy_set_2049 toy_decode_2049 maxOutputSamples_def Let_def)
       (simp add: toy_native_def)
  then show ?thesis using w by simp
qed

lemma floor48_wrapped: "floor_times_0_000048 (- 2147483648) = - 103080"
  by code_simp

section \<open>The claims\<close>

subsection \<open>C1: codec delay\<close>

text \<open>
  C1, as amended.  A CodecDelay element (id 22186) whose payload of one or more bytes
  carries the unsigned big-endian value \<open>D\<close> with \<open>D < 2 ^ 31\<close> sets the write cursor to
  \<open>- floor (D * 0.000048)\<close>, the floor of the exact product: \<open>ParseDelay\<close> returns with
  that cursor, and the iteration of the walker that meets the element goes on behind it
  with that cursor.  A frame submitted while the cursor is \<open>- c\<close> with \<open>0 < c\<close>, for which
  the decoder returns \<open>N\<close> samples \<open>decoded\<close>, and whose \<open>N - c\<close> samples fit the allocated
  output buffer, is written without its first \<open>c\<close> samples at index 0 of the output
  buffer: \<open>max 0 (N - c)\<close> samples replace the head of the buffer, and the cursor advances
  by \<open>N\<close>.  The frame is one that reaches the decoder: it fits the heap at the input
  pointer.
\<close>

theorem codec_delay_discards_leading_samples:
  "(in_view data position sz \<and> 1 \<le> sz
      \<and> be_uint (bytes_at data position (nat sz)) = D \<and> D < 2 ^ 31 \<longrightarrow>
      ParseDelay data position sz s
        = Inr (s\<lparr>outputOffset := - \<lfloor>real_of_int D * 0.000048\<rfloor>\<rparr>))
   \<and> (start < endp \<and> read_header data start = Inr (22186, sz, position)
        \<and> in_view data position sz \<and> 1 \<le> sz
        \<and> be_uint (bytes_at data position (nat sz)) = D \<and> D < 2 ^ 31 \<longrightarrow>
      ParseMaster_loop (Suc n) env data s start endp
        = ParseMaster_loop n env data (s\<lparr>outputOffset := - \<lfloor>real_of_int D * 0.000048\<rfloor>\<rparr>)
            (position + sz) endp)
   \<and> (outputOffset s = - c \<and> 0 < c
        \<and> 0 \<le> ptr (inputPointer s)
        \<and> ptr (inputPointer s) + int (length frame) \<le> 4 * int (length (heap32 env (wasm s)))
        \<and> decode_frame env (heap_set env (wasm s) frame (ptr (inputPointer s))) (decoder s)
              (inputPointer s) (int (length frame)) (outputPointer s) 4096 = (N, w)
        \<and> 0 < N
        \<and> f32_view (heap32 env w) (ptr (outputPointer s)) N = Some decoded
        \<and> audioBuffer s = Some buf
        \<and> N - c \<le> int (length buf) \<longrightarrow>
      ParseFrame env frame s =
        Inr (s\<lparr>wasm := w,
               audioBuffer := Some (drop (nat c) decoded @ drop (nat (max 0 (N - c))) buf),
               outputOffset := - c + N\<rparr>)
      \<and> int (length (drop (nat c) decoded)) = max 0 (N - c))"
proof -
  have delay: "ParseDelay data position sz s
        = Inr (s\<lparr>outputOffset := - \<lfloor>real_of_int D * 0.000048\<rfloor>\<rparr>)"
    if h: "in_view data position sz \<and> 1 \<le> sz
      \<and> be_uint (bytes_at data position (nat sz)) = D \<and> D < 2 ^ 31"
    for data position sz D and s :: "'a vars"
  proof -
    have "ReadVInt data position sz 255 = Inr (be_uint (bytes_at data position (nat sz)))"
      using h by (intro ReadVInt_value) (simp_all add: in_view_def)
    then have r: "ReadVInt data position sz 255 = Inr D" using h by simp
    have "0 \<le> D" using h be_uint_nonneg by blast
    moreover have "D < 2 ^ 32" using h by simp
    ultimately have "floor_times_0_000048 D = \<lfloor>real_of_int D * 0.000048\<rfloor>"
      by (rule floor_times_real)
    then show ?thesis using r by (simp add: ParseDelay_def)
  qed
  show ?thesis
  proof (intro conjI impI)
    assume "in_view data position sz \<and> 1 \<le> sz
      \<and> be_uint (bytes_at data position (nat sz)) = D \<and> D < 2 ^ 31"
    then show "ParseDelay data position sz s
        = Inr (s\<lparr>outputOffset := - \<lfloor>real_of_int D * 0.000048\<rfloor>\<rparr>)"
      by (rule delay)
  next
    assume h: "start < endp \<and> read_header data start = Inr (22186, sz, position)
        \<and> in_view data position sz \<and> 1 \<le> sz
        \<and> be_uint (bytes_at data position (nat sz)) = D \<and> D < 2 ^ 31"
    then have "leaf env 22186 data position sz s
        = Inr (s\<lparr>outputOffset := - \<lfloor>real_of_int D * 0.000048\<rfloor>\<rparr>)"
      using delay [of data position sz D s] by (simp add: leaf_def)
    moreover have "\<not> is_master 22186" by (simp add: is_master_def)
    ultimately show "ParseMaster_loop (Suc n) env data s start endp
        = ParseMaster_loop n env data (s\<lparr>outputOffset := - \<lfloor>real_of_int D * 0.000048\<rfloor>\<rparr>)
            (position + sz) endp"
      using h by (intro loop_leaf_step [where ident = 22186]) simp_all
  next
    assume h: "outputOffset s = - c \<and> 0 < c
        \<and> 0 \<le> ptr (inputPointer s)
        \<and> ptr (inputPointer s) + int (length frame) \<le> 4 * int (length (heap32 env (wasm s)))
        \<and> decode_frame env (heap_set env (wasm s) frame (ptr (inputPointer s))) (decoder s)
              (inputPointer s) (int (length frame)) (outputPointer s) 4096 = (N, w)
        \<and> 0 < N
        \<and> f32_view (heap32 env w) (ptr (outputPointer s)) N = Some decoded
        \<and> audioBuffer s = Some buf
        \<and> N - c \<le> int (length buf)"
    let ?s1 = "s\<lparr>wasm := w\<rparr>"
    have "WriteOutput env N ?s1 =
            Inr (?s1\<lparr>audioBuffer := Some (drop (nat c) decoded @ drop (nat (N - c)) buf),
                      outputOffset := N - c\<rparr>)"
      using h by (intro WriteOutput_negative_cursor) simp_all
    moreover have "nat (max 0 (N - c)) = nat (N - c)" by simp
    ultimately show "ParseFrame env frame s =
          Inr (s\<lparr>wasm := w,
                 audioBuffer := Some (drop (nat c) decoded @ drop (nat (max 0 (N - c))) buf),
                 outputOffset := - c + N\<rparr>)"
      using h by (simp add: ParseFrame_def maxOutputSamples_def Let_def)
    have "int (length decoded) = N" using h f32_view_length by blast
    then show "int (length (drop (nat c) decoded)) = max 0 (N - c)"
      using h by auto
  qed
qed

theorem codec_delay_witness:
  "read_header [0x56, 0xAA, 0x84, 0x07, 0x27, 0x0E, 0x00] 0 = Inr (22186, 4, 3)
   \<and> be_uint (bytes_at [0x56, 0xAA, 0x84, 0x07, 0x27, 0x0E, 0x00] 3 4) = 120000000
   \<and> ParseDelay [0x56, 0xAA, 0x84, 0x07, 0x27, 0x0E, 0x00] 3 4 (initial_vars toy_world)
        = Inr ((initial_vars toy_world)\<lparr>outputOffset := - 5760\<rparr>)
   \<and> ParseMaster_loop (Suc (Suc 0)) toy_native [0x56, 0xAA, 0x84, 0x07, 0x27, 0x0E, 0x00]
          (initial_vars toy_world) 0 7
        = Some (Inr ((initial_vars toy_world)\<lparr>outputOffset := - 5760\<rparr>))
   \<and> ParseFrame toy_native [1, 2, 3, 4, 5] (small_vars (- 2) [9, 9, 9, 9, 9, 9])
        = Inr ((small_vars (- 2) [9, 9, 9, 9, 9, 9])
                 \<lparr>wasm := ([1, 2, 3, 4, 5, 5, 0, 0], 24),
                  audioBuffer := Some [3, 4, 5, 9, 9, 9],
                  outputOffset := 3\<rparr>)"
proof -
  let ?d = "[0x56, 0xAA, 0x84, 0x07, 0x27, 0x0E, 0x00] :: byte list"
  let ?s = "small_vars (- 2) [9, 9, 9, 9, 9, 9]"
  have h: "read_header ?d 0 = Inr (22186, 4, 3)"
    by (simp add: ev_bytes ev_read Let_def)
  have v: "be_uint (bytes_at ?d 3 4) = 120000000" "in_view ?d 3 4"
    by (simp_all add: be_uint_def bytes_at_def in_view_def)
  have f: "\<lfloor>real_of_int 120000000 * 0.000048\<rfloor> = (5760 :: int)"
    by simp
  note t = codec_delay_discards_leading_samples
             [where data = ?d and position = 3 and sz = 4 and D = 120000000
                and start = 0 and endp = 7 and n = "Suc 0"
                and env = toy_native and s = "initial_vars toy_world"]
  have a: "ParseDelay ?d 3 4 (initial_vars toy_world)
             = Inr ((initial_vars toy_world)\<lparr>outputOffset := - 5760\<rparr>)"
    using t h v f by simp
  have b: "ParseMaster_loop (Suc (Suc 0)) toy_native ?d (initial_vars toy_world) 0 7
             = Some (Inr ((initial_vars toy_world)\<lparr>outputOffset := - 5760\<rparr>))"
    using t h v f by simp
  have set: "heap_set toy_native (wasm ?s) [1, 2, 3, 4, 5] (ptr (inputPointer ?s))
               = ([0, 0, 0, 0, 67305985, 5, 0, 0], 24)"
    by (simp add: small_vars_def ptr_def small_set)
  have dec: "decode_frame toy_native ([0, 0, 0, 0, 67305985, 5, 0, 0], 24) (decoder ?s)
               (inputPointer ?s) 5 (outputPointer ?s) 4096 = (5, ([1, 2, 3, 4, 5, 5, 0, 0], 24))"
    by (simp add: small_vars_def small_decode)
  have view: "f32_view (heap32 toy_native ([1, 2, 3, 4, 5, 5, 0, 0], 24)) (ptr (outputPointer ?s)) 5
                = Some [1, 2, 3, 4, 5]"
    by (simp add: toy_native_def small_vars_def f32_view_def ptr_def)
  have c: "ParseFrame toy_native [1, 2, 3, 4, 5] ?s
        = Inr (?s\<lparr>wasm := ([1, 2, 3, 4, 5, 5, 0, 0], 24),
                  audioBuffer := Some [3, 4, 5, 9, 9, 9],
                  outputOffset := 3\<rparr>)"
    using codec_delay_discards_leading_samples
            [where s = ?s and c = 2 and env = toy_native and frame = "[1, 2, 3, 4, 5]"
               and N = 5 and w = "([1, 2, 3, 4, 5, 5, 0, 0], 24)"
               and decoded = "[1, 2, 3, 4, 5]" and buf = "[9, 9, 9, 9, 9, 9]"]
          set dec view
    by (simp add: small_vars_def toy_native_def ptr_def)
  show ?thesis using h v a b c by simp
qed

text \<open>
  C1 as stated fails twice.  A CodecDelay of \<^verbatim>\<open>80 00 00 00\<close> carries 2147483648 ns; the
  last shift of \<open>ReadVInt\<close> wraps, the value read is \<open>- 2147483648\<close>, and the cursor
  becomes 103080, not \<open>- 103079\<close>.  A frame of 5 samples submitted at the cursor \<open>- 2\<close>
  with an output buffer of 2 samples is not written as 3 samples: the job fails with
  "Buffer overflow".
\<close>

theorem codec_delay_claim_fails:
  "read_header [0x56, 0xAA, 0x84, 0x80, 0x00, 0x00, 0x00] 0 = Inr (22186, 4, 3)
   \<and> be_uint (bytes_at [0x56, 0xAA, 0x84, 0x80, 0x00, 0x00, 0x00] 3 4) = 2147483648
   \<and> ParseMaster_loop (Suc (Suc 0)) toy_native [0x56, 0xAA, 0x84, 0x80, 0x00, 0x00, 0x00]
          (initial_vars toy_world) 0 7
        = Some (Inr ((initial_vars toy_world)\<lparr>outputOffset := 103080\<rparr>))
   \<and> - \<lfloor>real_of_int 2147483648 * 0.000048\<rfloor> = (- 103079 :: int)
   \<and> ParseFrame toy_native [1, 2, 3, 4, 5] (small_vars (- 2) [9, 9])
        = Inl (BufferOverflow, (small_vars (- 2) [9, 9])\<lparr>wasm := ([1, 2, 3, 4, 5, 5, 0, 0], 24)\<rparr>)
   \<and> max 0 (5 - 2) = (3 :: int)"
proof -
  let ?d = "[0x56, 0xAA, 0x84, 0x80, 0x00, 0x00, 0x00] :: byte list"
  have h: "read_header ?d 0 = Inr (22186, 4, 3)"
    by (simp add: ev_bytes ev_read Let_def)
  have v: "be_uint (bytes_at ?d 3 4) = 2147483648"
    by (simp add: be_uint_def bytes_at_def)
  have r: "ReadVInt ?d 3 4 255 = Inr (- 2147483648)"
    by (simp add: ev_bytes ReadVInt_def ReadVInt_loop.simps)
  have l: "leaf toy_native 22186 ?d 3 4 (initial_vars toy_world)
             = Inr ((initial_vars toy_world)\<lparr>outputOffset := 103080\<rparr>)"
    by (simp add: leaf_def ParseDelay_def r floor48_wrapped)
  have w: "ParseMaster_loop (Suc (Suc 0)) toy_native ?d (initial_vars toy_world) 0 7
             = Some (Inr ((initial_vars toy_world)\<lparr>outputOffset := 103080\<rparr>))"
    by (simp add: h l is_master_def)
  have f: "- \<lfloor>real_of_int 2147483648 * 0.000048\<rfloor> = (- 103079 :: int)"
    by simp
  have p: "ParseFrame toy_native [1, 2, 3, 4, 5] (small_vars (- 2) [9, 9])
        = Inl (BufferOverflow, (small_vars (- 2) [9, 9])\<lparr>wasm := ([1, 2, 3, 4, 5, 5, 0, 0], 24)\<rparr>)"
    by (simp add: ParseFrame_def WriteOutput_def small_vars_def toy_native_def ptr_def
          typed_set_def f32_view_def maxOutputSamples_def buffer_bytes_def sample_bytes_def
          sample_of_bytes_def Let_def)
  show ?thesis using h v w f p by simp
qed

subsection \<open>C2: discard padding\<close>

text \<open>
  C2 fails on the code for the declared size 3.  \<open>ReadInt24\<close> reads the byte at \<open>position\<close>
  three times and never negates, so \<^verbatim>\<open>FF FF FF\<close> (the 24-bit encoding of -1) is read as
  8388607 and subtracts 402 samples instead of failing the job, and \<^verbatim>\<open>20 00 00\<close>
  (2097152 ns, 100 samples) is read as 2105376 and subtracts 101 samples.
\<close>

theorem discard_padding_three_bytes:
  "ParseIntTag [0xFF, 0xFF, 0xFF] 0 3 = Inr 8388607
   \<and> ParseDiscard [0xFF, 0xFF, 0xFF] 0 3 (initial_vars toy_world)
        = Inr ((initial_vars toy_world)\<lparr>outputOffset := - 402\<rparr>)
   \<and> ParseIntTag [0x20, 0x00, 0x00] 0 3 = Inr 2105376
   \<and> ParseDiscard [0x20, 0x00, 0x00] 0 3 (initial_vars toy_world)
        = Inr ((initial_vars toy_world)\<lparr>outputOffset := - 101\<rparr>)
   \<and> floor_times_0_000048 2097152 = 100"
proof -
  have a: "ParseIntTag [0xFF, 0xFF, 0xFF] 0 3 = Inr 8388607"
    by (simp add: ev_bytes ev_read Let_def)
  have b: "ParseIntTag [0x20, 0x00, 0x00] 0 3 = Inr 2105376"
    by (simp add: ev_bytes ev_read Let_def)
  show ?thesis
    by (simp add: a b ParseDiscard_def floor48_values initial_vars_def)
qed

subsection \<open>C3: buffer overflow\<close>

text \<open>
  C3.  A frame whose \<open>ret\<close> decoded samples would end beyond the output buffer
  (\<open>length buf < outputOffset + ret\<close>) makes \<open>ParseFrame\<close> throw "Buffer overflow"; the
  variables at the throw are those before the call but for the decoder's own state, so the
  output buffer and the cursor are untouched.  \<open>ParseBlock\<close>, called for a Block (id 161)
  or SimpleBlock (id 163) without lacing that holds such a frame, throws the same, the
  iteration of the walker that meets the block passes the exception on with the same
  variables, and a walk that throws it makes the job fail with it (an enclosing master
  passes it on by \<open>loop_nested_error\<close>, the elements before the block by
  \<open>loop_rest_error\<close>).  After every frame write that returns, the buffer has kept its
  length and the cursor is at most that length.
\<close>

theorem frame_overflow_is_rejected:
  "(0 \<le> ptr (inputPointer s)
      \<and> ptr (inputPointer s) + int (length frame) \<le> 4 * int (length (heap32 env (wasm s)))
      \<and> decode_frame env (heap_set env (wasm s) frame (ptr (inputPointer s))) (decoder s)
            (inputPointer s) (int (length frame)) (outputPointer s) maxOutputSamples = (ret, w)
      \<and> 0 < ret
      \<and> f32_view (heap32 env w) (ptr (outputPointer s)) ret = Some decoded
      \<and> audioBuffer s = Some buf
      \<and> int (length buf) < outputOffset s + ret \<longrightarrow>
    ParseFrame env frame s = Inl (BufferOverflow, s\<lparr>wasm := w\<rparr>))
   \<and> (start < endp \<and> read_header data start = Inr (ident, sz, position)
        \<and> (ident = 161 \<or> ident = 163)
        \<and> getUint8 data position = Inr firstByte
        \<and> getUint8 data (position + vint_size firstByte + 2) = Inr flags
        \<and> flags AND 6 = 0
        \<and> u8_view data (position + vint_size firstByte + 3) (sz - (vint_size firstByte + 3))
             = Some frame
        \<and> 0 \<le> ptr (inputPointer s)
        \<and> ptr (inputPointer s) + int (length frame) \<le> 4 * int (length (heap32 env (wasm s)))
        \<and> decode_frame env (heap_set env (wasm s) frame (ptr (inputPointer s))) (decoder s)
              (inputPointer s) (int (length frame)) (outputPointer s) maxOutputSamples = (ret, w)
        \<and> 0 < ret
        \<and> f32_view (heap32 env w) (ptr (outputPointer s)) ret = Some decoded
        \<and> audioBuffer s = Some buf
        \<and> int (length buf) < outputOffset s + ret \<longrightarrow>
      ParseBlock env data position sz s = Inl (BufferOverflow, s\<lparr>wasm := w\<rparr>)
      \<and> ParseMaster_loop (Suc n) env data s start endp
           = Some (Inl (BufferOverflow, s\<lparr>wasm := w\<rparr>)))
   \<and> (ParseMaster fuel env arrayBuffer s0 0 (int (length arrayBuffer))
          = Some (Inl (BufferOverflow, s1)) \<longrightarrow>
        OpusDecode fuel env arrayBuffer s0 = Some (Inl (BufferOverflow, s1))
        \<and> job_result (OpusDecode fuel env arrayBuffer s0) = Some (Inl BufferOverflow))
   \<and> (ParseFrame env frame s = Inr s' \<and> audioBuffer s = Some buf \<longrightarrow>
        (\<exists>buf'. audioBuffer s' = Some buf' \<and> length buf' = length buf
                 \<and> outputOffset s' \<le> int (length buf')))"
proof (intro conjI impI)
  assume "0 \<le> ptr (inputPointer s)
      \<and> ptr (inputPointer s) + int (length frame) \<le> 4 * int (length (heap32 env (wasm s)))
      \<and> decode_frame env (heap_set env (wasm s) frame (ptr (inputPointer s))) (decoder s)
            (inputPointer s) (int (length frame)) (outputPointer s) maxOutputSamples = (ret, w)
      \<and> 0 < ret
      \<and> f32_view (heap32 env w) (ptr (outputPointer s)) ret = Some decoded
      \<and> audioBuffer s = Some buf
      \<and> int (length buf) < outputOffset s + ret"
  then show "ParseFrame env frame s = Inl (BufferOverflow, s\<lparr>wasm := w\<rparr>)"
    by (intro ParseFrame_overflow [where ret = ret and decoded = decoded and buf = buf]) simp_all
next
  assume h: "start < endp \<and> read_header data start = Inr (ident, sz, position)
        \<and> (ident = 161 \<or> ident = 163)
        \<and> getUint8 data position = Inr firstByte
        \<and> getUint8 data (position + vint_size firstByte + 2) = Inr flags
        \<and> flags AND 6 = 0
        \<and> u8_view data (position + vint_size firstByte + 3) (sz - (vint_size firstByte + 3))
             = Some frame
        \<and> 0 \<le> ptr (inputPointer s)
        \<and> ptr (inputPointer s) + int (length frame) \<le> 4 * int (length (heap32 env (wasm s)))
        \<and> decode_frame env (heap_set env (wasm s) frame (ptr (inputPointer s))) (decoder s)
              (inputPointer s) (int (length frame)) (outputPointer s) maxOutputSamples = (ret, w)
        \<and> 0 < ret
        \<and> f32_view (heap32 env w) (ptr (outputPointer s)) ret = Some decoded
        \<and> audioBuffer s = Some buf
        \<and> int (length buf) < outputOffset s + ret"
  have f: "ParseFrame env frame s = Inl (BufferOverflow, s\<lparr>wasm := w\<rparr>)"
    using h by (intro ParseFrame_overflow [where ret = ret and decoded = decoded and buf = buf])
               simp_all
  have "ParseBlock env data position sz s = ParseFrame env frame s"
    using h by (intro ParseBlock_frame [where firstByte = firstByte and flags = flags]) simp_all
  then have b: "ParseBlock env data position sz s = Inl (BufferOverflow, s\<lparr>wasm := w\<rparr>)"
    using f by simp
  have "\<not> is_master ident"
    and "leaf env ident data position sz s = ParseBlock env data position sz s"
    using h leaf_block [of ident env data position sz s] by simp_all
  then have "ParseMaster_loop (Suc n) env data s start endp
               = Some (Inl (BufferOverflow, s\<lparr>wasm := w\<rparr>))"
    using h b by (intro loop_leaf_error [where ident = ident and sz = sz and payload = position])
                 simp_all
  then have l: "ParseMaster_loop (Suc n) env data s start endp
               = Some (Inl (BufferOverflow, s\<lparr>wasm := w\<rparr>))" .
  show "ParseBlock env data position sz s = Inl (BufferOverflow, s\<lparr>wasm := w\<rparr>)"
    by (rule b)
  show "ParseMaster_loop (Suc n) env data s start endp
           = Some (Inl (BufferOverflow, s\<lparr>wasm := w\<rparr>))"
    by (rule l)
next
  assume h: "ParseMaster fuel env arrayBuffer s0 0 (int (length arrayBuffer))
          = Some (Inl (BufferOverflow, s1))"
  then have "OpusDecode fuel env arrayBuffer s0 = Some (Inl (BufferOverflow, s1))"
    by (rule job_error)
  then show "OpusDecode fuel env arrayBuffer s0 = Some (Inl (BufferOverflow, s1))"
    and "job_result (OpusDecode fuel env arrayBuffer s0) = Some (Inl BufferOverflow)"
    by (simp_all add: job_result_def)
next
  assume h: "ParseFrame env frame s = Inr s' \<and> audioBuffer s = Some buf"
  obtain ret w where d: "decode_frame env (heap_set env (wasm s) frame (ptr (inputPointer s)))
      (decoder s) (inputPointer s) (int (length frame)) (outputPointer s) maxOutputSamples = (ret, w)"
    by (cases "decode_frame env (heap_set env (wasm s) frame (ptr (inputPointer s)))
      (decoder s) (inputPointer s) (int (length frame)) (outputPointer s) maxOutputSamples") auto
  from h d have "WriteOutput env ret (s\<lparr>wasm := w\<rparr>) = Inr s'"
    by (auto simp: ParseFrame_def Let_def split: if_splits)
  moreover have "audioBuffer (s\<lparr>wasm := w\<rparr>) = Some buf" using h by simp
  ultimately show "\<exists>buf'. audioBuffer s' = Some buf' \<and> length buf' = length buf
                 \<and> outputOffset s' \<le> int (length buf')"
    by (rule WriteOutput_cursor_bound)
qed

theorem frame_overflow_witness:
  "ParseFrame toy_native [1, 2, 3, 4, 5] (small_vars 0 [9, 9, 9])
     = Inl (BufferOverflow, (small_vars 0 [9, 9, 9])\<lparr>wasm := ([1, 2, 3, 4, 5, 5, 0, 0], 24)\<rparr>)
   \<and> ParseMaster_loop (Suc 0) toy_native
         [0x18, 0x53, 0x80, 0x67, 0x90, 0x1F, 0x43, 0xB6, 0x75, 0x8B,
          0xA3, 0x89, 0x81, 0, 0, 0, 1, 2, 3, 4, 5] (small_vars 0 [9, 9, 9]) 10 21
     = Some (Inl (BufferOverflow,
                  (small_vars 0 [9, 9, 9])\<lparr>wasm := ([1, 2, 3, 4, 5, 5, 0, 0], 24)\<rparr>))
   \<and> OpusDecode 3 toy_native
         [0x18, 0x53, 0x80, 0x67, 0x90, 0x1F, 0x43, 0xB6, 0x75, 0x8B,
          0xA3, 0x89, 0x81, 0, 0, 0, 1, 2, 3, 4, 5] (small_vars 0 [9, 9, 9])
     = Some (Inl (BufferOverflow,
                  (small_vars 0 [9, 9, 9])\<lparr>wasm := ([1, 2, 3, 4, 5, 5, 0, 0], 24)\<rparr>))
   \<and> job_result (OpusDecode 3 toy_native
         [0x18, 0x53, 0x80, 0x67, 0x90, 0x1F, 0x43, 0xB6, 0x75, 0x8B,
          0xA3, 0x89, 0x81, 0, 0, 0, 1, 2, 3, 4, 5] (small_vars 0 [9, 9, 9]))
     = Some (Inl BufferOverflow)
   \<and> ParseFrame toy_native [1, 2, 3, 4, 5] (small_vars 1 [9, 9, 9, 9, 9, 9])
     = Inr ((small_vars 1 [9, 9, 9, 9, 9, 9])
              \<lparr>wasm := ([1, 2, 3, 4, 5, 5, 0, 0], 24),
               audioBuffer := Some [9, 1, 2, 3, 4, 5], outputOffset := 6\<rparr>)
   \<and> (\<exists>buf'. Some [9, 1, 2, 3, 4, 5] = Some buf' \<and> length buf' = length [9, 9, 9, 9, 9, 9 :: sample]
         \<and> (6 :: int) \<le> int (length buf'))"
proof -
  let ?d = "[0x18, 0x53, 0x80, 0x67, 0x90, 0x1F, 0x43, 0xB6, 0x75, 0x8B,
          0xA3, 0x89, 0x81, 0, 0, 0, 1, 2, 3, 4, 5] :: byte list"
  let ?s = "small_vars 0 [9, 9, 9]"
  let ?e = "?s\<lparr>wasm := ([1, 2, 3, 4, 5, 5, 0, 0], 24)\<rparr>"
  let ?t = "small_vars 1 [9, 9, 9, 9, 9, 9]"
  let ?t' = "?t\<lparr>wasm := ([1, 2, 3, 4, 5, 5, 0, 0], 24),
               audioBuffer := Some [9, 1, 2, 3, 4, 5], outputOffset := 6\<rparr>"
  have h1: "read_header ?d 0 = Inr (408125543, 16, 5)"
    by (simp add: ev_bytes ev_read Let_def)
  have h2: "read_header ?d 5 = Inr (524531317, 11, 10)"
    by (simp add: ev_bytes ev_read Let_def)
  have h3: "read_header ?d 10 = Inr (163, 9, 12)"
    by (simp add: ev_bytes ev_read Let_def)
  have b: "getUint8 ?d 12 = Inr 129" "vint_size 129 = 1" "getUint8 ?d 15 = Inr 0"
    "u8_view ?d 16 5 = Some [1, 2, 3, 4, 5]"
    by (simp_all add: ev_bytes u8_view_def)
  note t = frame_overflow_is_rejected
             [where s = ?s and env = toy_native and frame = "[1, 2, 3, 4, 5]" and ret = 5
                and w = "([1, 2, 3, 4, 5, 5, 0, 0], 24)" and decoded = "[1, 2, 3, 4, 5]"
                and buf = "[9, 9, 9]" and data = ?d and start = 10 and endp = 21
                and ident = 163 and sz = 9 and position = 12 and firstByte = 129 and flags = 0
                and n = 0 and fuel = 3 and arrayBuffer = ?d and ?s0.0 = ?s and ?s1.0 = ?e]
  have a: "ParseFrame toy_native [1, 2, 3, 4, 5] ?s = Inl (BufferOverflow, ?e)"
    using t
    by (simp add: small_vars_def toy_native_def ptr_def typed_set_def f32_view_def
          maxOutputSamples_def buffer_bytes_def sample_bytes_def sample_of_bytes_def Let_def)
  have l3: "ParseMaster_loop (Suc 0) toy_native ?d ?s 10 21 = Some (Inl (BufferOverflow, ?e))"
    using t
    by (simp add: h3 b small_vars_def toy_native_def ptr_def typed_set_def f32_view_def
          maxOutputSamples_def buffer_bytes_def sample_bytes_def sample_of_bytes_def Let_def)
  have l2: "ParseMaster_loop (Suc (Suc 0)) toy_native ?d ?s 5 21 = Some (Inl (BufferOverflow, ?e))"
    using l3 by (intro loop_nested_error [OF _ h2]) (simp_all add: is_master_def)
  have l1: "ParseMaster_loop (Suc (Suc (Suc 0))) toy_native ?d ?s 0 21
              = Some (Inl (BufferOverflow, ?e))"
    using l2 by (intro loop_nested_error [OF _ h1]) (simp_all add: is_master_def)
  have w: "ParseMaster 3 toy_native ?d ?s 0 (int (length ?d)) = Some (Inl (BufferOverflow, ?e))"
    using l1 by (simp add: ParseMaster_def numeral_3_eq_3)
  have j: "OpusDecode 3 toy_native ?d ?s = Some (Inl (BufferOverflow, ?e))
           \<and> job_result (OpusDecode 3 toy_native ?d ?s) = Some (Inl BufferOverflow)"
    using t w by (simp add: job_result_def)
  have p: "ParseFrame toy_native [1, 2, 3, 4, 5] ?t = Inr ?t'"
    by (simp add: ParseFrame_def WriteOutput_def small_vars_def toy_native_def ptr_def
          typed_set_def f32_view_def maxOutputSamples_def buffer_bytes_def sample_bytes_def
          sample_of_bytes_def Let_def)
  have c: "\<exists>buf'. audioBuffer ?t' = Some buf' \<and> length buf' = length [9, 9, 9, 9, 9, 9 :: sample]
         \<and> outputOffset ?t' \<le> int (length buf')"
    using frame_overflow_is_rejected
            [where s = ?t and env = toy_native and frame = "[1, 2, 3, 4, 5]" and s' = ?t'
               and buf = "[9, 9, 9, 9, 9, 9]"] p
    by (simp add: small_vars_def)
  have c': "\<exists>buf'. Some [9, 1, 2, 3, 4, 5] = Some buf'
         \<and> length buf' = length [9, 9, 9, 9, 9, 9 :: sample]
         \<and> (6 :: int) \<le> int (length buf')"
    using c by (simp add: small_vars_def)
  show ?thesis
    by (intro conjI) (rule a, rule l3, rule j [THEN conjunct1], rule j [THEN conjunct2],
                      rule p, rule c')
qed

subsection \<open>C4: duration\<close>

text \<open>
  C4, as amended.  \<open>ParseDuration\<close> throws "Invalid size" unless the size is 4 or 8.  When
  it returns, the duration was read as a 32-bit float (size 4) or a 64-bit float (size 8),
  and the output buffer is zero-filled with the length \<open>n\<close> that \<^verbatim>\<open>new Float32Array\<close> makes
  of \<open>48000 / 1000 * 1 * (duration + 120)\<close>: the binary64 result with its fraction cut off.
  For a duration that is a whole number \<open>k < 2 ^ 32\<close> of milliseconds the length is
  \<open>(k + 120) * 48\<close> exactly.
\<close>

theorem duration_allocates_buffer:
  "(sz \<noteq> 4 \<and> sz \<noteq> 8 \<longrightarrow> ParseDuration env data position sz s = Inl (InvalidSize, s))
   \<and> (ParseDuration env data position sz s = Inr s' \<longrightarrow>
        (\<exists>duration n.
            (sz = 4 \<and> getFloat32 data position = Inr duration
               \<or> sz = 8 \<and> getFloat64 data position = Inr duration)
            \<and> ToIndex (CalculateAudioBufferSize (of_integer 48000) (of_integer 1)
                        (add64 duration (of_integer 120))) = Inr n
            \<and> audioBuffer s' = Some (replicate (nat n) 0)))
   \<and> (ParseDuration env data position sz s = Inr s'
        \<and> (sz = 4 \<and> getFloat32 data position = Inr (Fin m e)
               \<or> sz = 8 \<and> getFloat64 data position = Inr (Fin m e))
        \<and> dyadic_value m e = of_int k \<and> 0 \<le> k \<and> k < 2 ^ 32 \<longrightarrow>
        audioBuffer s' = Some (replicate (nat ((k + 120) * 48)) 0))"
proof (intro conjI impI)
  assume "sz \<noteq> 4 \<and> sz \<noteq> 8"
  then show "ParseDuration env data position sz s = Inl (InvalidSize, s)"
    by (simp add: ParseDuration_def)
next
  assume h: "ParseDuration env data position sz s = Inr s'"
  then obtain duration where
    d: "sz = 4 \<and> getFloat32 data position = Inr duration
          \<or> sz = 8 \<and> getFloat64 data position = Inr duration"
    and c: "CreateDecoder env duration s = Inr s'"
    by (auto simp: ParseDuration_def split: sum.splits if_splits)
  from CreateDecoder_buffer [OF c] d
  show "\<exists>duration n.
            (sz = 4 \<and> getFloat32 data position = Inr duration
               \<or> sz = 8 \<and> getFloat64 data position = Inr duration)
            \<and> ToIndex (CalculateAudioBufferSize (of_integer 48000) (of_integer 1)
                        (add64 duration (of_integer 120))) = Inr n
            \<and> audioBuffer s' = Some (replicate (nat n) 0)"
    by blast
next
  assume h: "ParseDuration env data position sz s = Inr s'
        \<and> (sz = 4 \<and> getFloat32 data position = Inr (Fin m e)
               \<or> sz = 8 \<and> getFloat64 data position = Inr (Fin m e))
        \<and> dyadic_value m e = of_int k \<and> 0 \<le> k \<and> k < 2 ^ 32"
  then have "CreateDecoder env (Fin m e) s = Inr s'"
    by (auto simp: ParseDuration_def split: sum.splits if_splits)
  from CreateDecoder_buffer [OF this] obtain n where
    n: "ToIndex (CalculateAudioBufferSize (of_integer 48000) (of_integer 1)
                   (add64 (Fin m e) (of_integer 120))) = Inr n"
    and b: "audioBuffer s' = Some (replicate (nat n) 0)"
    by blast
  have "n = (k + 120) * 48"
    using n integral_duration_length [of k m e] h by simp
  then show "audioBuffer s' = Some (replicate (nat ((k + 120) * 48)) 0)"
    using b by simp
qed

theorem duration_witness:
  "ParseDuration toy_native [0x42, 0x20, 0, 0] 0 3 (initial_vars toy_world)
     = Inl (InvalidSize, initial_vars toy_world)
   \<and> ParseDuration toy_native [0x42, 0x20, 0, 0] 0 4 (initial_vars toy_world)
     = Inr \<lparr>decoder = Some 1, audioBuffer = Some (replicate 7680 0), inputPointer = Some 8200,
          outputBuffer = Some 2048, outputPointer = Some 8, outputOffset = 0,
          wasm = (replicate 8192 0, 10248)\<rparr>
   \<and> getFloat32 [0x42, 0x20, 0, 0] 0 = Inr (Fin 10485760 (- 18))
   \<and> dyadic_value 10485760 (- 18) = 40
   \<and> (\<exists>duration n.
          getFloat32 [0x42, 0x20, 0, 0] 0 = Inr duration
          \<and> ToIndex (CalculateAudioBufferSize (of_integer 48000) (of_integer 1)
                      (add64 duration (of_integer 120))) = Inr n
          \<and> Some (replicate 7680 (0 :: sample)) = Some (replicate (nat n) 0))
   \<and> Some (replicate 7680 (0 :: sample)) = Some (replicate (nat ((40 + 120) * 48)) 0)"
proof -
  let ?d = "[0x42, 0x20, 0, 0] :: byte list"
  let ?s = "\<lparr>decoder = Some 1, audioBuffer = Some (replicate 7680 0), inputPointer = Some 8200,
          outputBuffer = Some 2048, outputPointer = Some 8, outputOffset = 0,
          wasm = (replicate 8192 0, 10248)\<rparr> :: (sample list \<times> int) vars"
  have f: "getFloat32 ?d 0 = Inr (Fin 10485760 (- 18))"
    by (simp add: ev_bytes getFloat32_def decode_float_def Let_def inf_of_def)
  have v: "dyadic_value 10485760 (- 18) = 40"
    by (simp add: dyadic_value_def)
  have a: "ParseDuration toy_native ?d 0 3 (initial_vars toy_world)
             = Inl (InvalidSize, initial_vars toy_world)"
    using duration_allocates_buffer [where sz = 3 and env = toy_native and data = ?d
            and position = 0 and s = "initial_vars toy_world"]
    by simp
  have b: "ParseDuration toy_native ?d 0 4 (initial_vars toy_world) = Inr ?s"
    using create_toy [OF len48_40] by (simp add: ParseDuration_def f)
  have c: "\<exists>duration n.
          getFloat32 ?d 0 = Inr duration
          \<and> ToIndex (CalculateAudioBufferSize (of_integer 48000) (of_integer 1)
                      (add64 duration (of_integer 120))) = Inr n
          \<and> audioBuffer ?s = Some (replicate (nat n) 0)"
    using duration_allocates_buffer [where sz = 4 and env = toy_native and data = ?d
            and position = 0 and s = "initial_vars toy_world" and s' = ?s] b
    by simp
  have e: "audioBuffer ?s = Some (replicate (nat ((40 + 120) * 48)) 0)"
    using duration_allocates_buffer [where sz = 4 and env = toy_native and data = ?d
            and position = 0 and s = "initial_vars toy_world" and s' = ?s
            and m = 10485760 and e = "- 18" and k = 40] b f v
    by simp
  show ?thesis using a b c e f v by simp
qed

text \<open>
  C4 as stated fails: a Duration of 1/64 ms (the 32-bit float \<^verbatim>\<open>3C 80 00 00\<close>) gives a
  buffer of 5760 samples, and \<open>(1/64 + 120) * 48\<close> is 5760.75.
\<close>

theorem fractional_duration_is_truncated:
  "getFloat32 [0x3C, 0x80, 0, 0] 0 = Inr (Fin 8388608 (- 29))
   \<and> dyadic_value 8388608 (- 29) = 1 / 64
   \<and> allocated_length (ParseDuration toy_native [0x3C, 0x80, 0, 0] 0 4 (initial_vars toy_world))
        = Some 5760
   \<and> (1 / 64 + 120) * 48 = (23043 / 4 :: rat)
   \<and> (5760 :: rat) < 23043 / 4"
proof -
  let ?d = "[0x3C, 0x80, 0, 0] :: byte list"
  have f: "getFloat32 ?d 0 = Inr (Fin 8388608 (- 29))"
    by (simp add: ev_bytes getFloat32_def decode_float_def Let_def inf_of_def)
  have v: "dyadic_value 8388608 (- 29) = 1 / 64"
    by (simp add: dyadic_value_def)
  have b: "allocated_length (ParseDuration toy_native ?d 0 4 (initial_vars toy_world)) = Some 5760"
    using create_toy [OF len48_64th] by (simp add: ParseDuration_def f allocated_length_def)
  show ?thesis using f v b by simp
qed

subsection \<open>C5: the walk over a range\<close>

text \<open>
  C5 fails on the code.  A size field of 5 to 8 bytes is accumulated by \<open>ReadVInt\<close> through
  \<^verbatim>\<open>value << 8\<close>, which keeps 32 bits and a sign; the size of an element can come out
  negative.  For a Segment of unknown size (\<^verbatim>\<open>18 53 80 67 01 FF FF FF FF FF FF FF\<close>) the size
  is -1: the header occupies bytes 0 to 11, the walker continues at byte 11, reads it again
  as the id of a next element, and returns normally.
\<close>

theorem unknown_size_overlaps:
  "read_header [0x18, 0x53, 0x80, 0x67, 0x01, 0xFF, 0xFF, 0xFF, 0xFF, 0xFF, 0xFF, 0xFF, 0x80] 0
     = Inr (408125543, - 1, 12)
   \<and> ParseMaster_loop (Suc (Suc n)) env
         [0x18, 0x53, 0x80, 0x67, 0x01, 0xFF, 0xFF, 0xFF, 0xFF, 0xFF, 0xFF, 0xFF, 0x80] s 0 13
     = ParseMaster_loop (Suc n) env
         [0x18, 0x53, 0x80, 0x67, 0x01, 0xFF, 0xFF, 0xFF, 0xFF, 0xFF, 0xFF, 0xFF, 0x80] s 11 13
   \<and> read_header [0x18, 0x53, 0x80, 0x67, 0x01, 0xFF, 0xFF, 0xFF, 0xFF, 0xFF, 0xFF, 0xFF, 0x80] 11
     = Inr (255, 0, 13)
   \<and> ParseMaster 4 toy_native
         [0x18, 0x53, 0x80, 0x67, 0x01, 0xFF, 0xFF, 0xFF, 0xFF, 0xFF, 0xFF, 0xFF, 0x80]
         (initial_vars toy_world) 0 13
     = Some (Inr (initial_vars toy_world))"
proof -
  let ?d = "[0x18, 0x53, 0x80, 0x67, 0x01, 0xFF, 0xFF, 0xFF, 0xFF, 0xFF, 0xFF, 0xFF, 0x80] :: byte list"
  have h1: "read_header ?d 0 = Inr (408125543, - 1, 12)"
    by (simp add: ev_bytes ev_read Let_def)
  have h2: "read_header ?d 11 = Inr (255, 0, 13)"
    by (simp add: ev_bytes ev_read Let_def)
  have inner: "ParseMaster_loop (Suc n) env ?d s 12 11 = Some (Inr s)"
    by simp
  have step: "ParseMaster_loop (Suc (Suc n)) env ?d s 0 13
                = ParseMaster_loop (Suc n) env ?d s 11 13"
    by (subst ParseMaster_loop.simps(2))
       (simp add: h1 is_master_def inner del: ParseMaster_loop.simps)
  have "ParseMaster 4 toy_native ?d (initial_vars toy_world) 0 13
          = Some (Inr (initial_vars toy_world))"
    by (simp add: ParseMaster_def ParseMaster_loop_numeral h1 h2 is_master_def leaf_def)
  then show ?thesis using h1 h2 step by simp
qed

subsection \<open>C6: length markers\<close>




subsection \<open>C7: lacing\<close>



subsection \<open>C8: a failing job\<close>

text \<open>
  C8 fails on the code.  The handler has no \<^verbatim>\<open>try\<close>: when \<open>ParseMaster\<close> throws,
  \<open>DestroyDecoder\<close> is not run and \<^verbatim>\<open>_audioBuffer\<close> is not cleared.  After a Duration, a
  CodecDelay of 6.5 ms and a SimpleBlock with a lacing flag, the job fails with the decoder
  handle still set, the output buffer still referenced and the cursor still at -312.
\<close>

theorem failed_job_keeps_decoder:
  "OpusDecode 4 toy_native
       [0x44, 0x89, 0x84, 0, 0, 0, 0,
        0x56, 0xAA, 0x83, 0x63, 0x2E, 0xA0,
        0xA3, 0x84, 0x81, 0, 0, 0x02] (initial_vars toy_world)
     = Some (Inl (LacingNotSupported,
         \<lparr>decoder = Some 1, audioBuffer = Some (replicate 5760 0), inputPointer = Some 8200,
          outputBuffer = Some 2048, outputPointer = Some 8, outputOffset = - 312,
          wasm = (replicate 8192 0, 10248)\<rparr>))"
proof -
  let ?d = "[0x44, 0x89, 0x84, 0, 0, 0, 0,
        0x56, 0xAA, 0x83, 0x63, 0x2E, 0xA0,
        0xA3, 0x84, 0x81, 0, 0, 0x02] :: byte list"
  let ?s1 = "\<lparr>decoder = Some 1, audioBuffer = Some (replicate 5760 0), inputPointer = Some 8200,
        outputBuffer = Some 2048, outputPointer = Some 8, outputOffset = 0,
        wasm = (replicate 8192 0, 10248)\<rparr> :: (sample list \<times> int) vars"
  let ?s2 = "\<lparr>decoder = Some 1, audioBuffer = Some (replicate 5760 0), inputPointer = Some 8200,
        outputBuffer = Some 2048, outputPointer = Some 8, outputOffset = - 312,
        wasm = (replicate 8192 0, 10248)\<rparr> :: (sample list \<times> int) vars"
  have h1: "read_header ?d 0 = Inr (17545, 4, 3)"
    by (simp add: ev_bytes ev_read Let_def)
  have f: "getFloat32 ?d 3 = Inr (Fin 0 (- 149))"
    by (simp add: ev_bytes getFloat32_def decode_float_def Let_def inf_of_def)
  have l1: "leaf toy_native 17545 ?d 3 4 (initial_vars toy_world) = Inr ?s1"
    using create_toy [OF len48_0] by (simp add: leaf_def ParseDuration_def f)
  have h2: "read_header ?d 7 = Inr (22186, 3, 10)"
    by (simp add: ev_bytes ev_read Let_def)
  have r: "ReadVInt ?d 10 3 255 = Inr 6500000"
    by (simp add: ev_bytes ReadVInt_def ReadVInt_loop.simps)
  have l2: "leaf toy_native 22186 ?d 10 3 ?s1 = Inr ?s2"
    by (simp add: leaf_def ParseDelay_def r floor48_delays)
  have h3: "read_header ?d 13 = Inr (163, 4, 15)"
    by (simp add: ev_bytes ev_read Let_def)
  have b: "getUint8 ?d 15 = Inr 129" "vint_size 129 = 1" "getUint8 ?d 18 = Inr 2"
    by (simp_all add: ev_bytes)
  have l3: "leaf toy_native 163 ?d 15 4 (?s2)
              = Inl (LacingNotSupported, ?s2)"
    using ParseBlock_lacing [where data = ?d and position = 15 and firstByte = 129 and flags = 2]
          b
    by (simp add: leaf_def)
  have w: "ParseMaster 4 toy_native ?d (initial_vars toy_world) 0 19
             = Some (Inl (LacingNotSupported, ?s2))"
    by (simp add: ParseMaster_def ParseMaster_loop_numeral h1 h2 h3 l1 l2 l3 is_master_def)
  show ?thesis
    by (simp add: OpusDecode_def w)
qed

subsection \<open>C9: the scratch area\<close>

text \<open>
  C9 fails on the code.  \<open>CreateDecoder\<close> allocates \<open>bufferSize * 4 = 8192\<close> bytes and a
  view of \<open>bufferSize = 2048\<close> samples for the scratch area, and \<open>ParseFrame\<close> passes 4096
  as the bound to \<open>decode_frame\<close>: the scratch area is half the advertised bound.  On the
  small instance the scratch area is the cells 2 to 2049 of the heap and the input area
  starts at cell 2050 (address 8200); a frame that decodes to 2049 samples is accepted and
  written to the output, and its last sample lies in cell 2050, over the first four bytes
  of the frame that \<open>ParseFrame\<close> had copied to the input area.
\<close>

theorem scratch_smaller_than_bound:
  "CreateDecoder toy_native (Fin 0 (- 149)) (initial_vars toy_world)
     = Inr \<lparr>decoder = Some 1, audioBuffer = Some (replicate 5760 0), inputPointer = Some 8200,
          outputBuffer = Some 2048, outputPointer = Some 8, outputOffset = 0,
          wasm = (replicate 8192 0, 10248)\<rparr>
   \<and> bufferSize * 4 = 8192
   \<and> maxOutputSamples = 4096
   \<and> ParseFrame toy_native (replicate 2049 1)
         \<lparr>decoder = Some 1, audioBuffer = Some (replicate 5760 0), inputPointer = Some 8200,
          outputBuffer = Some 2048, outputPointer = Some 8, outputOffset = 0,
          wasm = (replicate 8192 0, 10248)\<rparr>
       = Inr \<lparr>decoder = Some 1, audioBuffer = Some (replicate 2049 1 @ replicate 3711 0),
            inputPointer = Some 8200, outputBuffer = Some 2048, outputPointer = Some 8,
            outputOffset = 2049,
            wasm = (replicate 2 0 @ replicate 2049 1 @ replicate 511 16843009 @ [1]
                      @ replicate 5629 0, 10248)\<rparr>
   \<and> (replicate 2 0 @ replicate 2049 1 @ replicate 511 16843009 @ [1]
         @ replicate 5629 (0 :: sample)) ! 2050 = 1"
proof -
  have b: "(replicate 2 0 @ replicate 2049 1 @ replicate 511 16843009 @ [1]
         @ replicate 5629 (0 :: sample)) ! 2050 = 1"
    by (simp add: nth_append)
  show ?thesis
    using create_toy [OF len48_0] toy_frame_2049 b by (simp add: bufferSize_def maxOutputSamples_def)
qed

subsection \<open>C10: a negative cursor at the end\<close>

text \<open>
  C10, as amended.  When the walk returns with the output buffer allocated and a negative
  cursor \<open>c\<close>, the job does not fail: \<open>slice(0, c * 4)\<close> counts the end from the end of the
  buffer, and the result is the leading \<open>max 0 (4 * length buf + 4 * c)\<close> bytes of the
  buffer.  It is empty when \<open>- c\<close> is the buffer length or more.
\<close>

theorem negative_cursor_result:
  "ParseMaster fuel env arrayBuffer s 0 (int (length arrayBuffer)) = Some (Inr s1)
     \<and> audioBuffer s1 = Some buf \<and> outputOffset s1 < 0 \<longrightarrow>
   (\<exists>out. job_result (OpusDecode fuel env arrayBuffer s) = Some (Inr out)
      \<and> out = take (nat (4 * int (length buf) + 4 * outputOffset s1)) (buffer_bytes buf)
      \<and> int (length out) = max 0 (4 * int (length buf) + 4 * outputOffset s1))"
proof
  assume h: "ParseMaster fuel env arrayBuffer s 0 (int (length arrayBuffer)) = Some (Inr s1)
     \<and> audioBuffer s1 = Some buf \<and> outputOffset s1 < 0"
  let ?out = "take (nat (4 * int (length buf) + 4 * outputOffset s1)) (buffer_bytes buf)"
  have "job_result (OpusDecode fuel env arrayBuffer s) = Some (Inr ?out)"
    using h by (intro job_negative_cursor) simp_all
  moreover have "int (length ?out) = max 0 (4 * int (length buf) + 4 * outputOffset s1)"
    using h by (auto simp: length_buffer_bytes min_def max_def)
  ultimately show "\<exists>out. job_result (OpusDecode fuel env arrayBuffer s) = Some (Inr out)
      \<and> out = take (nat (4 * int (length buf) + 4 * outputOffset s1)) (buffer_bytes buf)
      \<and> int (length out) = max 0 (4 * int (length buf) + 4 * outputOffset s1)"
    by blast
qed

theorem negative_cursor_witness:
  "ParseMaster 3 toy_native [0x44, 0x89, 0x84, 0, 0, 0, 0, 0x56, 0xAA, 0x84, 0x00, 0x0F, 0x42, 0x40]
       (initial_vars toy_world) 0 14
     = Some (Inr \<lparr>decoder = Some 1, audioBuffer = Some (replicate 5760 0),
              inputPointer = Some 8200, outputBuffer = Some 2048, outputPointer = Some 8,
              outputOffset = - 48, wasm = (replicate 8192 0, 10248)\<rparr>)
   \<and> (\<exists>out. job_result (OpusDecode 3 toy_native
                 [0x44, 0x89, 0x84, 0, 0, 0, 0, 0x56, 0xAA, 0x84, 0x00, 0x0F, 0x42, 0x40]
                 (initial_vars toy_world)) = Some (Inr out)
         \<and> out = take 22848 (buffer_bytes (replicate 5760 0))
         \<and> int (length out) = 22848)"
proof -
  let ?d = "[0x44, 0x89, 0x84, 0, 0, 0, 0, 0x56, 0xAA, 0x84, 0x00, 0x0F, 0x42, 0x40] :: byte list"
  let ?s1 = "\<lparr>decoder = Some 1, audioBuffer = Some (replicate 5760 0), inputPointer = Some 8200,
        outputBuffer = Some 2048, outputPointer = Some 8, outputOffset = - 48,
        wasm = (replicate 8192 0, 10248)\<rparr> :: (sample list \<times> int) vars"
  have r: "ReadVInt ?d 10 4 255 = Inr 1000000"
    by (simp add: ev_bytes ReadVInt_def ReadVInt_loop.simps)
  have w: "ParseMaster 3 toy_native ?d (initial_vars toy_world) 0 14 = Some (Inr ?s1)"
    using walk_duration_delay [OF r] by (simp add: floor48_delays)
  have "\<exists>out. job_result (OpusDecode 3 toy_native ?d (initial_vars toy_world)) = Some (Inr out)
      \<and> out = take (nat (4 * int (length (replicate 5760 (0 :: sample))) + 4 * outputOffset ?s1))
                 (buffer_bytes (replicate 5760 0))
      \<and> int (length out)
           = max 0 (4 * int (length (replicate 5760 (0 :: sample))) + 4 * outputOffset ?s1)"
    using negative_cursor_result
            [where fuel = 3 and env = toy_native and arrayBuffer = ?d
               and s = "initial_vars toy_world" and ?s1.0 = ?s1 and buf = "replicate 5760 0"] w
    by simp
  then show ?thesis using w by simp
qed

text \<open>
  C10 as stated fails: after a Duration of 0 ms (a buffer of 5760 samples, 23040 bytes) and
  a CodecDelay of 2147483647 ns, the walk ends with the cursor at -103079, and the job
  returns an empty buffer, not one of \<open>23040 + 4 * (-103079)\<close> bytes.
\<close>

theorem negative_cursor_can_empty_result:
  "ParseMaster 3 toy_native [0x44, 0x89, 0x84, 0, 0, 0, 0, 0x56, 0xAA, 0x84, 0x7F, 0xFF, 0xFF, 0xFF]
       (initial_vars toy_world) 0 14
     = Some (Inr \<lparr>decoder = Some 1, audioBuffer = Some (replicate 5760 0),
              inputPointer = Some 8200, outputBuffer = Some 2048, outputPointer = Some 8,
              outputOffset = - 103079, wasm = (replicate 8192 0, 10248)\<rparr>)
   \<and> job_result (OpusDecode 3 toy_native
          [0x44, 0x89, 0x84, 0, 0, 0, 0, 0x56, 0xAA, 0x84, 0x7F, 0xFF, 0xFF, 0xFF]
          (initial_vars toy_world)) = Some (Inr [])
   \<and> 4 * int (length (replicate 5760 (0 :: sample))) + 4 * (- 103079) < 0"
proof -
  let ?d = "[0x44, 0x89, 0x84, 0, 0, 0, 0, 0x56, 0xAA, 0x84, 0x7F, 0xFF, 0xFF, 0xFF] :: byte list"
  let ?s1 = "\<lparr>decoder = Some 1, audioBuffer = Some (replicate 5760 0), inputPointer = Some 8200,
        outputBuffer = Some 2048, outputPointer = Some 8, outputOffset = - 103079,
        wasm = (replicate 8192 0, 10248)\<rparr> :: (sample list \<times> int) vars"
  have r: "ReadVInt ?d 10 4 255 = Inr 2147483647"
    by (simp add: ev_bytes ReadVInt_def ReadVInt_loop.simps)
  have w: "ParseMaster 3 toy_native ?d (initial_vars toy_world) 0 14 = Some (Inr ?s1)"
    using walk_duration_delay [OF r] by (simp add: floor48_delays)
  have "job_result (OpusDecode 3 toy_native ?d (initial_vars toy_world)) = Some (Inr [])"
    using job_negative_cursor [where fuel = 3 and env = toy_native and arrayBuffer = ?d
               and s = "initial_vars toy_world" and ?s1.0 = ?s1 and buf = "replicate 5760 0"] w
    by simp
  then show ?thesis using w by simp
qed

end
